theory Spec2Isabelle
  imports Complex_Main
begin

section \<open>JavaScript values as produced by \<^verbatim>\<open>JSON.parse\<close>\<close>

text \<open>
  \<^verbatim>\<open>validateAndFixResponse(response: any)\<close> is called on the result of
  \<^verbatim>\<open>JSON.parse\<close>, so its argument is a JSON value. Numbers are modelled as reals: the
  function only compares them and takes \<^verbatim>\<open>Math.max\<close>/\<^verbatim>\<open>Math.min\<close>, and \<^verbatim>\<open>JSON.parse\<close>
  never yields NaN. An object is an association list read with \<open>map_of\<close>. The value
  \<^verbatim>\<open>undefined\<close> is \<open>None\<close> of \<open>json option\<close>.
\<close>

datatype json =
    JNull
  | JBool bool
  | JNum real
  | JStr string
  | JArr "json list"
  | JObj "(string \<times> json) list"

text \<open>What a \<^verbatim>\<open>throw\<close> carries: the two built-in exception kinds met here, and
  \<^verbatim>\<open>new Error(message)\<close>.\<close>

datatype error = TypeError | SyntaxError | Error string

text \<open>\<^verbatim>\<open>v.k\<close> on a value that is not \<^verbatim>\<open>null\<close>, for the property names read by this
  program (none of them is a built-in property of strings, numbers, booleans or arrays).\<close>

fun jprop :: "json \<Rightarrow> string \<Rightarrow> json option" where
  "jprop (JObj kvs) k = map_of kvs k"
| "jprop _ k = None"

text \<open>\<^verbatim>\<open>v.k\<close> in general: reading a property of \<^verbatim>\<open>null\<close> throws a TypeError.\<close>

definition getProp :: "json \<Rightarrow> string \<Rightarrow> error + json option" where
  "getProp v k = (if v = JNull then Inl TypeError else Inr (jprop v k))"

text \<open>\<^verbatim>\<open>v?.k\<close>: \<^verbatim>\<open>undefined\<close> when \<open>v\<close> is \<^verbatim>\<open>undefined\<close> or \<^verbatim>\<open>null\<close>.\<close>

fun optProp :: "json option \<Rightarrow> string \<Rightarrow> json option" where
  "optProp None k = None"
| "optProp (Some JNull) k = None"
| "optProp (Some v) k = jprop v k"

text \<open>Truthiness, as \<^verbatim>\<open>||\<close> tests it.\<close>

fun truthy :: "json option \<Rightarrow> bool" where
  "truthy None = False"
| "truthy (Some JNull) = False"
| "truthy (Some (JBool b)) = b"
| "truthy (Some (JNum n)) = (n \<noteq> 0)"
| "truthy (Some (JStr s)) = (s \<noteq> [])"
| "truthy (Some (JArr xs)) = True"
| "truthy (Some (JObj kvs)) = True"

text \<open>\<^verbatim>\<open>v || d\<close>\<close>

definition orElse :: "json option \<Rightarrow> json \<Rightarrow> json" where
  "orElse v d = (case v of Some w \<Rightarrow> (if truthy v then w else d) | None \<Rightarrow> d)"

text \<open>\<^verbatim>\<open>Array.isArray(v) ? v : []\<close>\<close>

fun arrayOrEmpty :: "json option \<Rightarrow> json list" where
  "arrayOrEmpty (Some (JArr xs)) = xs"
| "arrayOrEmpty _ = []"

text \<open>\<^verbatim>\<open>typeof v === 'number' ? Math.max(0, Math.min(1, v)) : d\<close>\<close>

fun clampOr :: "json option \<Rightarrow> real \<Rightarrow> real" where
  "clampOr (Some (JNum n)) d = max 0 (min 1 n)"
| "clampOr _ d = d"

text \<open>\<^verbatim>\<open>[s1, ..., sn].includes(v)\<close> for a list of string literals: strict equality with
  one of them.\<close>

definition includesLit :: "string list \<Rightarrow> json option \<Rightarrow> bool" where
  "includesLit lits v = (case v of Some (JStr s) \<Rightarrow> s \<in> set lits | _ \<Rightarrow> False)"

section \<open>The result types (\<^verbatim>\<open>types.ts\<close>)\<close>

text \<open>
  Fields that the normalizer computes as numbers are reals, fields it computes as arrays
  are lists, and fields it copies from the response (\<^verbatim>\<open>response.summary || "..."\<close>) keep
  whatever JSON value the response held. The coordinates of \<^verbatim>\<open>Region\<close> are prefixed,
  since \<open>x\<close> and \<open>y\<close> cannot be constants.
\<close>

record Region =
  region_x :: real
  region_y :: real
  region_width :: real
  region_height :: real

record DetailedFinding =
  finding :: json
  location :: json
  severity :: json
  artifactType :: json
  region :: Region
  evidenceStrength :: real
  benignAlternatives :: "json list"
  crossChecks :: "json list"
  geometricConsistency :: json
  lightingVector :: json
  resamplingIndicators :: "json list"
  cloneMatches :: "json list"

record AnalysisResult =
  analysisLog :: json
  overallAssessment :: json
  confidenceScore :: real
  summary :: json
  technicalSummary :: json
  detailedFindings :: "DetailedFinding list"
  coverageNotes :: json
  imageQualityScore :: real
  abstainedReasons :: "json list"
  promptVersion :: json

text \<open>The same records seen as the JavaScript objects they are, for passing a result
  back to a function that takes \<^verbatim>\<open>any\<close>.\<close>

definition json_of_Region :: "Region \<Rightarrow> json" where
  "json_of_Region r = JObj
     [(''x'', JNum (region_x r)), (''y'', JNum (region_y r)),
      (''width'', JNum (region_width r)), (''height'', JNum (region_height r))]"

definition json_of_DetailedFinding :: "DetailedFinding \<Rightarrow> json" where
  "json_of_DetailedFinding f = JObj
     [(''finding'', finding f),
      (''location'', location f),
      (''severity'', severity f),
      (''artifactType'', artifactType f),
      (''region'', json_of_Region (region f)),
      (''evidenceStrength'', JNum (evidenceStrength f)),
      (''benignAlternatives'', JArr (benignAlternatives f)),
      (''crossChecks'', JArr (crossChecks f)),
      (''geometricConsistency'', geometricConsistency f),
      (''lightingVector'', lightingVector f),
      (''resamplingIndicators'', JArr (resamplingIndicators f)),
      (''cloneMatches'', JArr (cloneMatches f))]"

definition json_of_AnalysisResult :: "AnalysisResult \<Rightarrow> json" where
  "json_of_AnalysisResult r = JObj
     [(''analysisLog'', analysisLog r),
      (''overallAssessment'', overallAssessment r),
      (''confidenceScore'', JNum (confidenceScore r)),
      (''summary'', summary r),
      (''technicalSummary'', technicalSummary r),
      (''detailedFindings'', JArr (map json_of_DetailedFinding (detailedFindings r))),
      (''coverageNotes'', coverageNotes r),
      (''imageQualityScore'', JNum (imageQualityScore r)),
      (''abstainedReasons'', JArr (abstainedReasons r)),
      (''promptVersion'', promptVersion r)]"

section \<open>The normalizer: \<^verbatim>\<open>validateAndFixResponse\<close>\<close>

definition LIKELY_AUTHENTIC :: string where
  "LIKELY_AUTHENTIC = ''LIKELY_AUTHENTIC''"

definition SUSPICIOUS_ANOMALIES_DETECTED :: string where
  "SUSPICIOUS_ANOMALIES_DETECTED = ''SUSPICIOUS_ANOMALIES_DETECTED''"

definition LIKELY_TAMPERED :: string where
  "LIKELY_TAMPERED = ''LIKELY_TAMPERED''"

definition MANUAL_REVIEW :: string where
  "MANUAL_REVIEW = ''MANUAL_REVIEW''"

definition lowConfidenceReason :: string where
  "lowConfidenceReason = ''Low confidence due to image quality or ambiguous evidence''"

definition moderateConfidenceReason :: string where
  "moderateConfidenceReason = ''Moderate confidence requires manual verification''"

text \<open>
  The statement pair
  \<^verbatim>\<open>if (!Array.isArray(response.abstainedReasons)) response.abstainedReasons = [];\<close>
  \<^verbatim>\<open>if (!response.abstainedReasons.includes(r)) response.abstainedReasons.push(r);\<close>
  as a function from the old value of \<^verbatim>\<open>response.abstainedReasons\<close> to the new one.
\<close>

definition pushReason :: "json option \<Rightarrow> string \<Rightarrow> json option" where
  "pushReason ar r =
     (let xs = arrayOrEmpty ar
      in Some (JArr (if JStr r \<in> set xs then xs else xs @ [JStr r])))"

text \<open>\<^verbatim>\<open>findings.filter((f: any) => f.severity === "High")\<close>; the callback throws on a
  \<^verbatim>\<open>null\<close> element.\<close>

fun filterHigh :: "json list \<Rightarrow> error + json list" where
  "filterHigh [] = Inr []"
| "filterHigh (f # fs) =
     (case getProp f ''severity'' of
        Inl e \<Rightarrow> Inl e
      | Inr s \<Rightarrow>
          (case filterHigh fs of
             Inl e \<Rightarrow> Inl e
           | Inr hs \<Rightarrow> Inr (if s = Some (JStr ''High'') then f # hs else hs)))"

text \<open>
  Lines 570 to 604: the confidence bands. The state is the local variable
  \<^verbatim>\<open>overallAssessment\<close> and the property \<^verbatim>\<open>response.abstainedReasons\<close>, which the code
  mutates; \<open>df\<close> is \<^verbatim>\<open>response.detailedFindings\<close>.
\<close>

definition enforceConsistency ::
  "real \<Rightarrow> json option \<Rightarrow> json option \<Rightarrow> json option
     \<Rightarrow> error + (json option \<times> json option)" where
  "enforceConsistency c oa ar df =
     (if c < 0.4 then
        Inr (Some (JStr MANUAL_REVIEW), pushReason ar lowConfidenceReason)
      else if c \<ge> 0.4 \<and> c < 0.7 then
        (if \<not> includesLit [SUSPICIOUS_ANOMALIES_DETECTED, LIKELY_TAMPERED] oa then
           (if oa = Some (JStr LIKELY_AUTHENTIC) then
              Inr (Some (JStr MANUAL_REVIEW), pushReason ar moderateConfidenceReason)
            else Inr (oa, ar))
         else Inr (oa, ar))
      else if c \<ge> 0.7 then
        (if includesLit [SUSPICIOUS_ANOMALIES_DETECTED, LIKELY_TAMPERED] oa then
           (case filterHigh (arrayOrEmpty df) of
              Inl e \<Rightarrow> Inl e
            | Inr highSeverityFindings \<Rightarrow>
                (if oa = Some (JStr LIKELY_TAMPERED) \<and> length highSeverityFindings < 2 then
                   Inr (Some (JStr SUSPICIOUS_ANOMALIES_DETECTED), ar)
                 else Inr (oa, ar)))
         else Inr (oa, ar))
      else Inr (oa, ar))"

text \<open>Lines 606 to 609: the enumeration check.\<close>

definition validateEnum :: "json option \<Rightarrow> json" where
  "validateEnum oa =
     (if \<not> includesLit [LIKELY_AUTHENTIC, SUSPICIOUS_ANOMALIES_DETECTED, LIKELY_TAMPERED,
                      MANUAL_REVIEW] oa
      then JStr MANUAL_REVIEW else the oa)"

text \<open>Lines 617 to 637: the callback of \<^verbatim>\<open>response.detailedFindings.map\<close>. Its first
  property read throws on a \<^verbatim>\<open>null\<close> element.\<close>

definition fixFinding :: "json \<Rightarrow> error + DetailedFinding" where
  "fixFinding f =
     (if f = JNull then Inl TypeError
      else Inr \<lparr>
        finding = orElse (jprop f ''finding'') (JStr ''Unspecified finding''),
        location = orElse (jprop f ''location'') (JStr ''Unknown location''),
        severity =
          (if includesLit [''Low'', ''Medium'', ''High''] (jprop f ''severity'')
           then the (jprop f ''severity'') else JStr ''Low''),
        artifactType =
          (if includesLit [''COMPRESSION'', ''CLONING'', ''HALOING'', ''NOISE_MISMATCH'',
                        ''KERNING'', ''RESAMPLING'', ''LIGHTING'', ''PAPER_TEXTURE'',
                        ''STAMP_SEAL'', ''SIGNATURE'', ''ALIGNMENT'', ''OTHER'']
                (jprop f ''artifactType'')
           then the (jprop f ''artifactType'') else JStr ''OTHER''),
        region = \<lparr>
          region_x = clampOr (optProp (jprop f ''region'') ''x'') 0,
          region_y = clampOr (optProp (jprop f ''region'') ''y'') 0,
          region_width = clampOr (optProp (jprop f ''region'') ''width'') 0.1,
          region_height = clampOr (optProp (jprop f ''region'') ''height'') 0.1 \<rparr>,
        evidenceStrength = clampOr (jprop f ''evidenceStrength'') 0.5,
        benignAlternatives = arrayOrEmpty (jprop f ''benignAlternatives''),
        crossChecks = arrayOrEmpty (jprop f ''crossChecks''),
        geometricConsistency = orElse (jprop f ''geometricConsistency'') JNull,
        lightingVector = orElse (jprop f ''lightingVector'') JNull,
        resamplingIndicators = arrayOrEmpty (jprop f ''resamplingIndicators''),
        cloneMatches = arrayOrEmpty (jprop f ''cloneMatches'') \<rparr>)"

fun mapFixFinding :: "json list \<Rightarrow> error + DetailedFinding list" where
  "mapFixFinding [] = Inr []"
| "mapFixFinding (f # fs) =
     (case fixFinding f of
        Inl e \<Rightarrow> Inl e
      | Inr d \<Rightarrow>
          (case mapFixFinding fs of
             Inl e \<Rightarrow> Inl e
           | Inr ds \<Rightarrow> Inr (d # ds)))"

definition validateAndFixResponse :: "json \<Rightarrow> error + AnalysisResult" where
  "validateAndFixResponse response =
     (if response = JNull then Inl TypeError
      else
        let confidenceScore' = clampOr (jprop response ''confidenceScore'') 0.5 in
        (case enforceConsistency confidenceScore'
                (jprop response ''overallAssessment'')
                (jprop response ''abstainedReasons'')
                (jprop response ''detailedFindings'') of
           Inl e \<Rightarrow> Inl e
         | Inr (oa, abstained) \<Rightarrow>
             (case mapFixFinding (arrayOrEmpty (jprop response ''detailedFindings'')) of
                Inl e \<Rightarrow> Inl e
              | Inr findings \<Rightarrow>
                  Inr \<lparr>
                    analysisLog = orElse (jprop response ''analysisLog'')
                      (JStr ''Analysis completed with default values due to parsing issues.''),
                    overallAssessment = validateEnum oa,
                    confidenceScore = confidenceScore',
                    summary = orElse (jprop response ''summary'')
                      (JStr ''Analysis completed with limited confidence.''),
                    technicalSummary = orElse (jprop response ''technicalSummary'')
                      (JStr ''Technical analysis results inconclusive.''),
                    detailedFindings = findings,
                    coverageNotes = orElse (jprop response ''coverageNotes'')
                      (JStr ''Coverage analysis completed.''),
                    imageQualityScore = clampOr (jprop response ''imageQualityScore'') 0.7,
                    abstainedReasons = arrayOrEmpty abstained,
                    promptVersion = orElse (jprop response ''promptVersion'') (JStr ''v2.2'')
                  \<rparr>)))"

text \<open>The test \<^verbatim>\<open>f.severity === "High"\<close> of line 598 on an element that is not
  \<^verbatim>\<open>null\<close>.\<close>

definition isHigh :: "json \<Rightarrow> bool" where
  "isHigh f = (jprop f ''severity'' = Some (JStr ''High''))"

text \<open>\<^verbatim>\<open>validateAndFixResponse(validateAndFixResponse(response))\<close>: the second call gets the
  object the first one returned, and an exception of the first call ends the whole.\<close>

definition normalizeTwice :: "json \<Rightarrow> error + AnalysisResult" where
  "normalizeTwice response =
     (case validateAndFixResponse response of
        Inl e \<Rightarrow> Inl e
      | Inr r \<Rightarrow> validateAndFixResponse (json_of_AnalysisResult r))"

section \<open>The end of \<^verbatim>\<open>analyzeDocument\<close>: parse, normalize, catch\<close>

text \<open>\<^verbatim>\<open>s.startsWith(p)\<close> and \<^verbatim>\<open>s.includes(needle)\<close> on strings.\<close>

fun startsWith :: "string \<Rightarrow> string \<Rightarrow> bool" where
  "startsWith s p = (take (length p) s = p)"

fun includesStr :: "string \<Rightarrow> string \<Rightarrow> bool" where
  "includesStr [] needle = (needle = [])"
| "includesStr (c # cs) needle = (startsWith (c # cs) needle \<or> includesStr cs needle)"

text \<open>
  The \<^verbatim>\<open>catch\<close> block of the OpenAI branch (lines 817 to 834). Whatever was thrown inside
  the \<^verbatim>\<open>try\<close> is replaced by a new \<^verbatim>\<open>Error\<close>; \<open>msg\<close> is the message text of the caught
  exception, which for the built-in exceptions is chosen by the JavaScript engine.
\<close>

definition openaiCatch :: "string \<Rightarrow> error" where
  "openaiCatch msg =
     (if includesStr msg ''401'' \<or> includesStr msg ''Unauthorized'' then
        Error ''Invalid API key. Please check your OpenAI API key in the configuration.''
      else if includesStr msg ''429'' \<or> includesStr msg ''rate limit'' then
        Error ''Rate limit exceeded. Please wait a moment and try again.''
      else if includesStr msg ''400'' \<or> includesStr msg ''Bad Request'' then
        Error ''Invalid request format. This might be a model compatibility issue.''
      else if includesStr msg ''network'' \<or> includesStr msg ''fetch'' then
        Error ''Network error. Please check your internet connection and try again.''
      else Error ''The OpenAI model failed to process the document. Please try again.'')"

text \<open>
  Lines 815 to 834: \<^verbatim>\<open>const parsed = JSON.parse(cleanedText); return
  validateAndFixResponse(parsed);\<close> inside the \<^verbatim>\<open>try\<close>. \<^verbatim>\<open>JSON.parse\<close> belongs to the
  platform: \<open>parsed\<close> is what it returned, or \<open>None\<close> when it threw a SyntaxError, as it
  does on the text \<^verbatim>\<open>not json\<close>.
\<close>

definition parseAndNormalize :: "string \<Rightarrow> json option \<Rightarrow> error + AnalysisResult" where
  "parseAndNormalize msg parsed =
     (case (case parsed of
              None \<Rightarrow> Inl SyntaxError
            | Some v \<Rightarrow> validateAndFixResponse v) of
        Inl e \<Rightarrow> Inl (openaiCatch msg)
      | Inr r \<Rightarrow> Inr r)"

section \<open>Model parameters (\<^verbatim>\<open>modelParameterUtils.ts\<close>)\<close>

datatype ModelType = GPT_4o | GPT_5 | O_series | Legacy

record Category =
  models :: "string list"
  category_type :: ModelType
  endpoint :: string
  description :: string

text \<open>The entries of \<^verbatim>\<open>MODEL_CATEGORIES\<close> in the order \<^verbatim>\<open>Object.entries\<close> lists them.\<close>

definition MODEL_CATEGORIES :: "(string \<times> Category) list" where
  "MODEL_CATEGORIES =
     [(''gpt-4o'', \<lparr>
         models = [''gpt-4o'', ''gpt-4o-mini'', ''gpt-4-vision-preview''],
         category_type = GPT_4o,
         endpoint = ''chat/completions'',
         description = ''Standard GPT-4o models with vision capabilities'' \<rparr>),
      (''gpt-5'', \<lparr>
         models = [''gpt-5'', ''gpt-5-mini'', ''gpt-4.1-mini'', ''gpt-4.1-nano''],
         category_type = GPT_5,
         endpoint = ''chat/completions'',
         description = ''GPT-5 series models requiring max_completion_tokens'' \<rparr>),
      (''o-series'', \<lparr>
         models = [''o4-mini'', ''o3''],
         category_type = O_series,
         endpoint = ''responses'',
         description = ''Advanced reasoning models with chain-of-thought capabilities'' \<rparr>),
      (''legacy'', \<lparr>
         models = [''model-router''],
         category_type = Legacy,
         endpoint = ''chat/completions'',
         description = ''Legacy and specialized routing models'' \<rparr>)]"

text \<open>The \<^verbatim>\<open>for\<close> loop of \<^verbatim>\<open>getModelType\<close> over the entries, and the fallback after it.\<close>

fun getModelTypeLoop :: "(string \<times> Category) list \<Rightarrow> string \<Rightarrow> ModelType" where
  "getModelTypeLoop [] modelName = Legacy"
| "getModelTypeLoop ((key, category) # rest) modelName =
     (if modelName \<in> set (models category) then category_type category
      else getModelTypeLoop rest modelName)"

definition getModelType :: "string \<Rightarrow> ModelType" where
  "getModelType modelName = getModelTypeLoop MODEL_CATEGORIES modelName"

fun getAvailableParameters :: "ModelType \<Rightarrow> string list" where
  "getAvailableParameters GPT_4o =
     [''temperature'', ''topP'', ''frequencyPenalty'', ''presencePenalty''] @ [''maxTokens'']"
| "getAvailableParameters Legacy =
     [''temperature'', ''topP'', ''frequencyPenalty'', ''presencePenalty''] @ [''maxTokens'']"
| "getAvailableParameters GPT_5 =
     [''temperature'', ''topP'', ''frequencyPenalty'', ''presencePenalty'']
       @ [''maxCompletionTokens'', ''responseFormat'']"
| "getAvailableParameters O_series =
     [''maxOutputTokens'', ''reasoningEffort'', ''reasoningStrategy'']"

text \<open>
  A value inside the object that \<^verbatim>\<open>createAPIParameterConfig\<close> builds: \<^verbatim>\<open>undefined\<close> (a
  property the parameters object does not have), a value copied from the parameters, or
  a nested object literal.
\<close>

datatype jsvalue = Undefined | Value json | ObjectLit "(string \<times> jsvalue) list"

definition readParam :: "json \<Rightarrow> string \<Rightarrow> jsvalue" where
  "readParam parameters k = (case jprop parameters k of None \<Rightarrow> Undefined | Some v \<Rightarrow> Value v)"

text \<open>\<^verbatim>\<open>ModelParameterConfig\<close>: the parameters are a union of three interfaces that the
  function reads by property name, so they are kept as the object they are.\<close>

record ModelParameterConfig =
  modelType :: ModelType
  parameters :: json

text \<open>The result is the list of the object literal's own properties, in order. The
  \<^verbatim>\<open>default\<close> branch of the \<^verbatim>\<open>switch\<close> is outside the four model types.\<close>

definition createAPIParameterConfig :: "ModelParameterConfig \<Rightarrow> (string \<times> jsvalue) list" where
  "createAPIParameterConfig config =
     (let baseConfig =
            [(''temperature'', readParam (parameters config) ''temperature''),
             (''top_p'', readParam (parameters config) ''topP''),
             (''frequency_penalty'', readParam (parameters config) ''frequencyPenalty''),
             (''presence_penalty'', readParam (parameters config) ''presencePenalty'')]
      in case modelType config of
           GPT_4o \<Rightarrow> baseConfig @ [(''max_tokens'', readParam (parameters config) ''maxTokens'')]
         | Legacy \<Rightarrow> baseConfig @ [(''max_tokens'', readParam (parameters config) ''maxTokens'')]
         | GPT_5 \<Rightarrow>
             baseConfig @
               [(''max_completion_tokens'', readParam (parameters config) ''maxCompletionTokens''),
                (''response_format'', readParam (parameters config) ''responseFormat'')]
         | O_series \<Rightarrow>
             [(''max_output_tokens'', readParam (parameters config) ''maxOutputTokens''),
              (''reasoning'',
                 ObjectLit [(''effort'', readParam (parameters config) ''reasoningEffort'')])])"

section \<open>Credentials (\<^verbatim>\<open>apiKeyUtils.ts\<close>)\<close>

datatype Provider = Google | OpenAI | AzureOpenAI | BedrockOpenAI

text \<open>The deployment defaults, \<^verbatim>\<open>import.meta.env.VITE_...\<close>; \<open>None\<close> is \<^verbatim>\<open>undefined\<close>.\<close>

record Env =
  VITE_GOOGLE_API_KEY :: "string option"
  VITE_OPENAI_API_KEY :: "string option"
  VITE_AZURE_OPENAI_API_KEY :: "string option"
  VITE_BEDROCK_PROXY_URL :: "string option"

text \<open>
  \<^verbatim>\<open>String.prototype.trim\<close> removes white space and line terminators from both ends.
  Strings are lists of 8-bit characters here, so these are the code units 9 to 13, 32
  and 160.
\<close>

definition isWhiteSpace :: "char \<Rightarrow> bool" where
  "isWhiteSpace c = ((of_char c :: nat) \<in> {9, 10, 11, 12, 13, 32, 160})"

definition trim :: "string \<Rightarrow> string" where
  "trim s = rev (dropWhile isWhiteSpace (rev (dropWhile isWhiteSpace s)))"

text \<open>One character of the class \<^verbatim>\<open>[a-f0-9]\<close> under the flag \<^verbatim>\<open>i\<close>.\<close>

definition isHexDigit :: "char \<Rightarrow> bool" where
  "isHexDigit c = (c \<in> set ''0123456789abcdefABCDEF'')"

text \<open>\<open>isURL s\<close> stands for \<^verbatim>\<open>new URL(s)\<close> not throwing, which the platform decides.\<close>

definition validateApiKey :: "(string \<Rightarrow> bool) \<Rightarrow> Provider \<Rightarrow> string \<Rightarrow> bool" where
  "validateApiKey isURL provider apiKey =
     (if apiKey = [] \<or> length (trim apiKey) = 0 then False
      else
        let sanitizedKey = trim apiKey in
        (case provider of
           Google \<Rightarrow> startsWith sanitizedKey ''AIza'' \<and> length sanitizedKey = 39
         | OpenAI \<Rightarrow>
             (startsWith sanitizedKey ''sk-'' \<or> startsWith sanitizedKey ''sk-proj-'')
               \<and> length sanitizedKey \<ge> 20
         | AzureOpenAI \<Rightarrow> length sanitizedKey = 32 \<and> list_all isHexDigit sanitizedKey
         | BedrockOpenAI \<Rightarrow> isURL sanitizedKey))"

text \<open>\<open>configApiKey\<close> is the optional argument: \<open>None\<close> when it is \<^verbatim>\<open>undefined\<close>.\<close>

definition getEffectiveApiKey ::
  "(string \<Rightarrow> bool) \<Rightarrow> Env \<Rightarrow> Provider \<Rightarrow> string option \<Rightarrow> string option" where
  "getEffectiveApiKey isURL env provider configApiKey =
     (if (case configApiKey of
            None \<Rightarrow> False
          | Some k \<Rightarrow> k \<noteq> [] \<and> length (trim k) > 0 \<and> validateApiKey isURL provider k)
      then configApiKey
      else
        (case provider of
           Google \<Rightarrow> VITE_GOOGLE_API_KEY env
         | OpenAI \<Rightarrow> VITE_OPENAI_API_KEY env
         | AzureOpenAI \<Rightarrow> VITE_AZURE_OPENAI_API_KEY env
         | BedrockOpenAI \<Rightarrow> VITE_BEDROCK_PROXY_URL env))"

section \<open>Sample inputs\<close>

text \<open>The result for the empty object \<^verbatim>\<open>{}\<close>: every field takes its default.\<close>

definition defaultResult :: AnalysisResult where
  "defaultResult = \<lparr>
     analysisLog = JStr ''Analysis completed with default values due to parsing issues.'',
     overallAssessment = JStr ''MANUAL_REVIEW'',
     confidenceScore = 0.5,
     summary = JStr ''Analysis completed with limited confidence.'',
     technicalSummary = JStr ''Technical analysis results inconclusive.'',
     detailedFindings = [],
     coverageNotes = JStr ''Coverage analysis completed.'',
     imageQualityScore = 0.7,
     abstainedReasons = [],
     promptVersion = JStr ''v2.2'' \<rparr>"

definition defaultFinding :: DetailedFinding where
  "defaultFinding = \<lparr>
     finding = JStr ''Unspecified finding'',
     location = JStr ''Unknown location'',
     severity = JStr ''Low'',
     artifactType = JStr ''OTHER'',
     region = \<lparr> region_x = 0, region_y = 0, region_width = 0.1, region_height = 0.1 \<rparr>,
     evidenceStrength = 0.5,
     benignAlternatives = [],
     crossChecks = [],
     geometricConsistency = JNull,
     lightingVector = JNull,
     resamplingIndicators = [],
     cloneMatches = [] \<rparr>"

text \<open>\<^verbatim>\<open>{"confidenceScore": 0.9, "overallAssessment": "LIKELY_AUTHENTIC"}\<close>\<close>

definition authenticResponse :: json where
  "authenticResponse =
     JObj [(''confidenceScore'', JNum 0.9), (''overallAssessment'', JStr ''LIKELY_AUTHENTIC'')]"

text \<open>\<^verbatim>\<open>{"confidenceScore": 0.2, "overallAssessment": "LIKELY_TAMPERED"}\<close>\<close>

definition lowConfidenceResponse :: json where
  "lowConfidenceResponse =
     JObj [(''confidenceScore'', JNum 0.2), (''overallAssessment'', JStr ''LIKELY_TAMPERED'')]"

text \<open>\<^verbatim>\<open>{"confidenceScore": 0.75, "overallAssessment": "LIKELY_TAMPERED",
  "detailedFindings": [{"severity": "High"}]}\<close>\<close>

definition oneHighResponse :: json where
  "oneHighResponse =
     JObj [(''confidenceScore'', JNum 0.75), (''overallAssessment'', JStr ''LIKELY_TAMPERED''),
           (''detailedFindings'', JArr [JObj [(''severity'', JStr ''High'')]])]"

text \<open>A reasoning-model configuration that also carries sampling fields.\<close>

definition reasoningConfig :: ModelParameterConfig where
  "reasoningConfig = \<lparr>
     modelType = O_series,
     parameters = JObj [(''temperature'', JNum 0.1), (''maxOutputTokens'', JNum 4000),
                        (''reasoningEffort'', JStr ''medium''),
                        (''reasoningStrategy'', JStr ''default''), (''topP'', JNum 1)] \<rparr>"

text \<open>A deployment that sets a default for OpenAI only.\<close>

definition sampleEnv :: Env where
  "sampleEnv = \<lparr>
     VITE_GOOGLE_API_KEY = None,
     VITE_OPENAI_API_KEY = Some ''sk-deployment-default-key-0000'',
     VITE_AZURE_OPENAI_API_KEY = None,
     VITE_BEDROCK_PROXY_URL = None \<rparr>"

text \<open>\<^verbatim>\<open>{"confidenceScore": 0.5, "overallAssessment": "LIKELY_AUTHENTIC"}\<close>\<close>

definition moderateAuthenticResponse :: json where
  "moderateAuthenticResponse =
     JObj [(''confidenceScore'', JNum 0.5), (''overallAssessment'', JStr ''LIKELY_AUTHENTIC'')]"

text \<open>The same response, with the moderate-confidence reason already listed twice.\<close>

definition duplicateReasonResponse :: json where
  "duplicateReasonResponse =
     JObj [(''confidenceScore'', JNum 0.5), (''overallAssessment'', JStr ''LIKELY_AUTHENTIC''),
           (''abstainedReasons'',
              JArr [JStr ''Moderate confidence requires manual verification'',
                    JStr ''Moderate confidence requires manual verification''])]"

text \<open>
  \<^verbatim>\<open>{"detailedFindings": [{"lightingVector": {"direction": 400, "softness": 3},
  "cloneMatches": [{"region1": {"x": 5, "y": 0, "width": 2, "height": 2},
  "region2": {"x": -1, "y": 0, "width": 2, "height": 2}, "similarity": 7}]}]}\<close>
\<close>

definition outOfRangeLighting :: json where
  "outOfRangeLighting = JObj [(''direction'', JNum 400), (''softness'', JNum 3)]"

definition outOfRangeCloneMatch :: json where
  "outOfRangeCloneMatch =
     JObj [(''region1'', JObj [(''x'', JNum 5), (''y'', JNum 0),
                               (''width'', JNum 2), (''height'', JNum 2)]),
           (''region2'', JObj [(''x'', JNum (-1)), (''y'', JNum 0),
                               (''width'', JNum 2), (''height'', JNum 2)]),
           (''similarity'', JNum 7)]"

definition nestedOutOfRangeResponse :: json where
  "nestedOutOfRangeResponse =
     JObj [(''detailedFindings'',
            JArr [JObj [(''lightingVector'', outOfRangeLighting),
                        (''cloneMatches'', JArr [outOfRangeCloneMatch])]])]"

text \<open>The message of the SyntaxError that V8 throws for \<^verbatim>\<open>JSON.parse("not json")\<close>.\<close>

definition notJsonMessage :: string where
  "notJsonMessage = ''Unexpected token o in JSON at position 1''"

text \<open>
  \<^verbatim>\<open>{"confidenceScore": 7, "imageQualityScore": -2, "detailedFindings":
  [{"evidenceStrength": 9, "region": {"x": 5, "y": -3, "width": 0.5}}]}\<close> and its result.
\<close>

definition outOfRangeResponse :: json where
  "outOfRangeResponse =
     JObj [(''confidenceScore'', JNum 7), (''imageQualityScore'', JNum (-2)),
           (''detailedFindings'',
              JArr [JObj [(''evidenceStrength'', JNum 9),
                          (''region'', JObj [(''x'', JNum 5), (''y'', JNum (-3)),
                                             (''width'', JNum 0.5)])]])]"

definition outOfRangeResult :: AnalysisResult where
  "outOfRangeResult =
     defaultResult\<lparr>
       confidenceScore := 1, imageQualityScore := 0,
       detailedFindings :=
         [defaultFinding\<lparr>
            evidenceStrength := 1,
            region := \<lparr>region_x = 1, region_y = 0, region_width = 0.5,
                        region_height = 0.1\<rparr>\<rparr>]\<rparr>"

text \<open>\<^verbatim>\<open>{"summary": "ok", "confidenceScore": 0.8, "overallAssessment": "LIKELY_AUTHENTIC",
  "detailedFindings": [{}]}\<close>\<close>

definition partialResponse :: json where
  "partialResponse =
     JObj [(''summary'', JStr ''ok''), (''confidenceScore'', JNum 0.8),
           (''overallAssessment'', JStr ''LIKELY_AUTHENTIC''),
           (''detailedFindings'', JArr [JObj []])]"

text \<open>\<^verbatim>\<open>{"confidenceScore": 0.1, "detailedFindings": [null]}\<close>\<close>

definition lowConfidenceNullFinding :: json where
  "lowConfidenceNullFinding =
     JObj [(''confidenceScore'', JNum 0.1), (''detailedFindings'', JArr [JNull])]"

text \<open>\<^verbatim>\<open>{"confidenceScore": 0.9, "overallAssessment": "LIKELY_TAMPERED",
  "detailedFindings": [null]}\<close>\<close>

definition highConfidenceNullFinding :: json where
  "highConfidenceNullFinding =
     JObj [(''confidenceScore'', JNum 0.9), (''overallAssessment'', JStr ''LIKELY_TAMPERED''),
           (''detailedFindings'', JArr [JNull])]"

text \<open>\<^verbatim>\<open>{"confidenceScore": 0.9, "overallAssessment": "foo"}\<close>\<close>

definition unknownAssessmentResponse :: json where
  "unknownAssessmentResponse =
     JObj [(''confidenceScore'', JNum 0.9), (''overallAssessment'', JStr ''foo'')]"

section \<open>Properties of the normalizer\<close>

lemma filterHigh_no_null:
  "JNull \<notin> set fs \<Longrightarrow> filterHigh fs = Inr (filter isHigh fs)"
  by (induction fs) (auto simp: getProp_def isHigh_def)

lemma filterHigh_Inl:
  "filterHigh fs = Inl e \<Longrightarrow> e = TypeError \<and> JNull \<in> set fs"
  by (induction fs) (auto simp: getProp_def split: sum.splits if_splits)

lemma mapFixFinding_no_null:
  "JNull \<notin> set fs \<Longrightarrow> \<exists>ds. mapFixFinding fs = Inr ds"
  by (induction fs) (auto simp: fixFinding_def)

lemma mapFixFinding_Inl:
  "mapFixFinding fs = Inl e \<Longrightarrow> e = TypeError \<and> JNull \<in> set fs"
  by (induction fs) (auto simp: fixFinding_def split: sum.splits if_splits)

lemma mapFixFinding_Inr:
  "mapFixFinding fs = Inr ds
     \<Longrightarrow> JNull \<notin> set fs \<and> list_all2 (\<lambda>f d. fixFinding f = Inr d) fs ds"
  by (induction fs arbitrary: ds) (auto simp: fixFinding_def split: sum.splits if_splits)

lemma enforce_low:
  "c < 0.4 \<Longrightarrow> enforceConsistency c oa ar df =
     Inr (Some (JStr MANUAL_REVIEW), pushReason ar lowConfidenceReason)"
  by (simp add: enforceConsistency_def)

lemma enforce_mid:
  "0.4 \<le> c \<Longrightarrow> c < 0.7 \<Longrightarrow> enforceConsistency c oa ar df =
     Inr (if oa = Some (JStr LIKELY_AUTHENTIC)
          then (Some (JStr MANUAL_REVIEW), pushReason ar moderateConfidenceReason)
          else (oa, ar))"
  by (simp add: enforceConsistency_def includesLit_def LIKELY_AUTHENTIC_def
      SUSPICIOUS_ANOMALIES_DETECTED_def LIKELY_TAMPERED_def)

lemma enforce_high:
  "0.7 \<le> c \<Longrightarrow> JNull \<notin> set (arrayOrEmpty df) \<Longrightarrow> enforceConsistency c oa ar df =
     Inr (if oa = Some (JStr LIKELY_TAMPERED) \<and> length (filter isHigh (arrayOrEmpty df)) < 2
          then Some (JStr SUSPICIOUS_ANOMALIES_DETECTED) else oa, ar)"
  by (auto simp add: enforceConsistency_def includesLit_def filterHigh_no_null
      SUSPICIOUS_ANOMALIES_DETECTED_def LIKELY_TAMPERED_def split: option.splits json.splits)

lemma validate_Inr:
  assumes "validateAndFixResponse x = Inr r"
  shows "x \<noteq> JNull"
    and "\<exists>oa ab. enforceConsistency (clampOr (jprop x ''confidenceScore'') 0.5)
                (jprop x ''overallAssessment'') (jprop x ''abstainedReasons'')
                (jprop x ''detailedFindings'') = Inr (oa, ab)
            \<and> overallAssessment r = validateEnum oa \<and> abstainedReasons r = arrayOrEmpty ab"
    and "mapFixFinding (arrayOrEmpty (jprop x ''detailedFindings'')) = Inr (detailedFindings r)"
    and "confidenceScore r = clampOr (jprop x ''confidenceScore'') 0.5"
    and "imageQualityScore r = clampOr (jprop x ''imageQualityScore'') 0.7"
  using assms
  by (auto simp: validateAndFixResponse_def Let_def split: if_splits sum.splits prod.splits)

lemma validateEnum_member:
  "validateEnum oa \<in> {JStr LIKELY_AUTHENTIC, JStr SUSPICIOUS_ANOMALIES_DETECTED,
                        JStr LIKELY_TAMPERED, JStr MANUAL_REVIEW}"
  by (auto simp: validateEnum_def includesLit_def split: option.splits json.splits)

lemma validateEnum_known:
  "a \<in> {LIKELY_AUTHENTIC, SUSPICIOUS_ANOMALIES_DETECTED, LIKELY_TAMPERED, MANUAL_REVIEW}
     \<Longrightarrow> validateEnum (Some (JStr a)) = JStr a"
  by (auto simp: validateEnum_def includesLit_def)

lemma validateEnum_eq_iff:
  "a \<in> {LIKELY_AUTHENTIC, SUSPICIOUS_ANOMALIES_DETECTED, LIKELY_TAMPERED}
     \<Longrightarrow> validateEnum oa = JStr a \<longleftrightarrow> oa = Some (JStr a)"
  by (auto simp: validateEnum_def includesLit_def LIKELY_AUTHENTIC_def
      SUSPICIOUS_ANOMALIES_DETECTED_def LIKELY_TAMPERED_def MANUAL_REVIEW_def
      split: option.splits json.splits)

subsection \<open>The assessment of a result\<close>

text \<open>
  C10. Whenever the normalizer returns a result, its \<open>overallAssessment\<close> is one of the
  four members of the enumeration, and it is LIKELY_AUTHENTIC only if the result's
  \<open>confidenceScore\<close> is at least 0.7: the low and the moderate band never give
  LIKELY_AUTHENTIC.
\<close>

theorem authentic_needs_high_confidence:
  assumes "validateAndFixResponse x = Inr r"
  shows "(overallAssessment r = JStr LIKELY_AUTHENTIC \<longrightarrow> 0.7 \<le> confidenceScore r)
       \<and> overallAssessment r \<in> {JStr LIKELY_AUTHENTIC, JStr SUSPICIOUS_ANOMALIES_DETECTED,
                                   JStr LIKELY_TAMPERED, JStr MANUAL_REVIEW}"
proof -
  define c where "c = clampOr (jprop x ''confidenceScore'') 0.5"
  obtain oa ab where e: "enforceConsistency c
                (jprop x ''overallAssessment'') (jprop x ''abstainedReasons'')
                (jprop x ''detailedFindings'') = Inr (oa, ab)"
     and o: "overallAssessment r = validateEnum oa"
    using validate_Inr(2)[OF assms] unfolding c_def by blast
  have cr: "confidenceScore r = c"
    using validate_Inr(4)[OF assms] c_def by simp
  have "c < 0.7 \<Longrightarrow> oa \<noteq> Some (JStr LIKELY_AUTHENTIC)"
  proof (cases "c < 0.4")
    case True
    with e show ?thesis
      by (auto simp: enforce_low MANUAL_REVIEW_def LIKELY_AUTHENTIC_def)
  next
    case False
    assume "c < 0.7"
    with False e show ?thesis
      by (auto simp: enforce_mid MANUAL_REVIEW_def LIKELY_AUTHENTIC_def split: if_splits)
  qed
  then have "overallAssessment r = JStr LIKELY_AUTHENTIC \<longrightarrow> 0.7 \<le> confidenceScore r"
    using o cr validateEnum_eq_iff[of LIKELY_AUTHENTIC oa] by fastforce
  then show ?thesis
    using o validateEnum_member[of oa] by simp
qed

theorem authentic_needs_high_confidence_witness:
  "validateAndFixResponse authenticResponse
     = Inr (defaultResult\<lparr>overallAssessment := JStr ''LIKELY_AUTHENTIC'', confidenceScore := 0.9\<rparr>)
   \<and> overallAssessment
        (defaultResult\<lparr>overallAssessment := JStr ''LIKELY_AUTHENTIC'', confidenceScore := 0.9\<rparr>)
        = JStr LIKELY_AUTHENTIC
   \<and> (0.7 :: real) \<le> confidenceScore
        (defaultResult\<lparr>overallAssessment := JStr ''LIKELY_AUTHENTIC'', confidenceScore := 0.9\<rparr>)"
proof -
  have h: "validateAndFixResponse authenticResponse
     = Inr (defaultResult\<lparr>overallAssessment := JStr ''LIKELY_AUTHENTIC'', confidenceScore := 0.9\<rparr>)"
    by (simp add: validateAndFixResponse_def authenticResponse_def enforceConsistency_def
        includesLit_def validateEnum_def defaultResult_def orElse_def LIKELY_AUTHENTIC_def
        SUSPICIOUS_ANOMALIES_DETECTED_def LIKELY_TAMPERED_def MANUAL_REVIEW_def)
  show ?thesis
    using h authentic_needs_high_confidence[OF h]
    by (simp add: LIKELY_AUTHENTIC_def)
qed

lemma pushReason_array:
  "arrayOrEmpty (pushReason ar s) =
     (if JStr s \<in> set (arrayOrEmpty ar) then arrayOrEmpty ar else arrayOrEmpty ar @ [JStr s])"
  by (simp add: pushReason_def Let_def)

subsection \<open>Running the normalizer on its own result\<close>

lemma orElse_again: "orElse (Some (orElse v d)) d = orElse v d"
  by (cases v) (auto simp: orElse_def)

lemma clampOr_range: "0 \<le> d \<Longrightarrow> d \<le> 1 \<Longrightarrow> 0 \<le> clampOr v d \<and> clampOr v d \<le> 1"
  by (induction v d rule: clampOr.induct) auto

lemma clampOr_of_range: "0 \<le> n \<Longrightarrow> n \<le> 1 \<Longrightarrow> clampOr (Some (JNum n)) d = n"
  by simp

lemma includesLit_again:
  "d \<in> set lits \<Longrightarrow>
   includesLit lits (Some (if includesLit lits v then the v else JStr d))"
  by (auto simp: includesLit_def split: option.splits json.splits)

lemma jprop_Region [simp]:
  "jprop (json_of_Region r) ''x'' = Some (JNum (region_x r))"
  "jprop (json_of_Region r) ''y'' = Some (JNum (region_y r))"
  "jprop (json_of_Region r) ''width'' = Some (JNum (region_width r))"
  "jprop (json_of_Region r) ''height'' = Some (JNum (region_height r))"
  by (simp_all add: json_of_Region_def)

lemma json_of_Region_not_null [simp]: "json_of_Region r \<noteq> JNull"
  by (simp add: json_of_Region_def)

lemma optProp_Region [simp]:
  "optProp (Some (json_of_Region r)) k = jprop (json_of_Region r) k"
  by (simp add: json_of_Region_def)

lemma jprop_DetailedFinding [simp]:
  "jprop (json_of_DetailedFinding f) ''finding'' = Some (finding f)"
  "jprop (json_of_DetailedFinding f) ''location'' = Some (location f)"
  "jprop (json_of_DetailedFinding f) ''severity'' = Some (severity f)"
  "jprop (json_of_DetailedFinding f) ''artifactType'' = Some (artifactType f)"
  "jprop (json_of_DetailedFinding f) ''region'' = Some (json_of_Region (region f))"
  "jprop (json_of_DetailedFinding f) ''evidenceStrength'' = Some (JNum (evidenceStrength f))"
  "jprop (json_of_DetailedFinding f) ''benignAlternatives'' = Some (JArr (benignAlternatives f))"
  "jprop (json_of_DetailedFinding f) ''crossChecks'' = Some (JArr (crossChecks f))"
  "jprop (json_of_DetailedFinding f) ''geometricConsistency'' = Some (geometricConsistency f)"
  "jprop (json_of_DetailedFinding f) ''lightingVector'' = Some (lightingVector f)"
  "jprop (json_of_DetailedFinding f) ''resamplingIndicators'' = Some (JArr (resamplingIndicators f))"
  "jprop (json_of_DetailedFinding f) ''cloneMatches'' = Some (JArr (cloneMatches f))"
  by (simp_all add: json_of_DetailedFinding_def)

lemma json_of_DetailedFinding_not_null [simp]: "json_of_DetailedFinding f \<noteq> JNull"
  by (simp add: json_of_DetailedFinding_def)

lemma jprop_AnalysisResult [simp]:
  "jprop (json_of_AnalysisResult r) ''analysisLog'' = Some (analysisLog r)"
  "jprop (json_of_AnalysisResult r) ''overallAssessment'' = Some (overallAssessment r)"
  "jprop (json_of_AnalysisResult r) ''confidenceScore'' = Some (JNum (confidenceScore r))"
  "jprop (json_of_AnalysisResult r) ''summary'' = Some (summary r)"
  "jprop (json_of_AnalysisResult r) ''technicalSummary'' = Some (technicalSummary r)"
  "jprop (json_of_AnalysisResult r) ''detailedFindings''
     = Some (JArr (map json_of_DetailedFinding (detailedFindings r)))"
  "jprop (json_of_AnalysisResult r) ''coverageNotes'' = Some (coverageNotes r)"
  "jprop (json_of_AnalysisResult r) ''imageQualityScore'' = Some (JNum (imageQualityScore r))"
  "jprop (json_of_AnalysisResult r) ''abstainedReasons'' = Some (JArr (abstainedReasons r))"
  "jprop (json_of_AnalysisResult r) ''promptVersion'' = Some (promptVersion r)"
  by (simp_all add: json_of_AnalysisResult_def)

lemma json_of_AnalysisResult_not_null [simp]: "json_of_AnalysisResult r \<noteq> JNull"
  by (simp add: json_of_AnalysisResult_def)

lemma fixFinding_projr:
  assumes "fixFinding f = Inr d"
  shows "f \<noteq> JNull" and "d = projr (fixFinding f)"
proof -
  from assms show "f \<noteq> JNull"
    by (cases "f = JNull") (simp_all add: fixFinding_def)
  from assms show "d = projr (fixFinding f)" by simp
qed

lemma fixFinding_again:
  assumes "fixFinding f = Inr d"
  shows "fixFinding (json_of_DetailedFinding d) = Inr d"
proof -
  note n = fixFinding_projr(1)[OF assms]
  have d: "d = projr (fixFinding f)" by (rule fixFinding_projr(2)[OF assms])
  show ?thesis
    unfolding d using n
    by (simp add: fixFinding_def orElse_again includesLit_again clampOr_of_range clampOr_range)
qed

lemma isHigh_json_of: "isHigh (json_of_DetailedFinding d) = (severity d = JStr ''High'')"
  by (simp add: isHigh_def)

lemma fixFinding_isHigh:
  assumes "fixFinding f = Inr d"
  shows "isHigh (json_of_DetailedFinding d) = isHigh f"
proof -
  note n = fixFinding_projr(1)[OF assms]
  have "severity d = severity (projr (fixFinding f))"
    using fixFinding_projr(2)[OF assms] by simp
  also have "\<dots> = (if includesLit [''Low'', ''Medium'', ''High''] (jprop f ''severity'')
                    then the (jprop f ''severity'') else JStr ''Low'')"
    using n by (simp add: fixFinding_def)
  finally have "(severity d = JStr ''High'') = (jprop f ''severity'' = Some (JStr ''High''))"
    by (auto simp: includesLit_def split: option.splits json.splits)
  then show ?thesis
    by (simp add: isHigh_json_of isHigh_def)
qed

lemma mapFixFinding_again:
  "list_all2 (\<lambda>f d. fixFinding f = Inr d) fs ds
     \<Longrightarrow> mapFixFinding (map json_of_DetailedFinding ds) = Inr ds"
  by (induction rule: list_all2_induct) (simp_all add: fixFinding_again)

lemma filter_isHigh_again:
  "list_all2 (\<lambda>f d. fixFinding f = Inr d) fs ds
     \<Longrightarrow> length (filter isHigh (map json_of_DetailedFinding ds)) = length (filter isHigh fs)"
  by (induction rule: list_all2_induct) (simp_all add: fixFinding_isHigh)

lemma no_null_json_of: "JNull \<notin> set (map json_of_DetailedFinding ds)"
  by (auto simp: json_of_DetailedFinding_def)

lemma list_all2_fixFinding_no_null:
  "list_all2 (\<lambda>f d. fixFinding f = Inr d) fs ds \<Longrightarrow> JNull \<notin> set fs"
  by (induction rule: list_all2_induct) (auto dest: fixFinding_projr(1))

lemma pushReason_Some: "Some (JArr (arrayOrEmpty (pushReason ar s))) = pushReason ar s"
  by (simp add: pushReason_def Let_def)

lemma pushReason_again:
  "pushReason (pushReason ar s) s = pushReason ar s"
  by (simp add: pushReason_def Let_def)

lemma validateEnum_again: "validateEnum (Some (validateEnum oa)) = validateEnum oa"
proof -
  have "\<exists>a \<in> {LIKELY_AUTHENTIC, SUSPICIOUS_ANOMALIES_DETECTED, LIKELY_TAMPERED, MANUAL_REVIEW}.
          validateEnum oa = JStr a"
    using validateEnum_member[of oa] by blast
  then obtain a where a: "a \<in> {LIKELY_AUTHENTIC, SUSPICIOUS_ANOMALIES_DETECTED,
                                LIKELY_TAMPERED, MANUAL_REVIEW}"
    and v: "validateEnum oa = JStr a"
    by blast
  show ?thesis
    unfolding v by (rule validateEnum_known[OF a])
qed

text \<open>What the bands do to a response whose fields are already those of a result.\<close>

lemma enforce_again:
  assumes e: "enforceConsistency c oa ar df = Inr (oa', ar')"
    and m: "list_all2 (\<lambda>f d. fixFinding f = Inr d) (arrayOrEmpty df) ds"
  shows "enforceConsistency c (Some (validateEnum oa')) (Some (JArr (arrayOrEmpty ar')))
           (Some (JArr (map json_of_DetailedFinding ds)))
         = Inr (Some (validateEnum oa'), Some (JArr (arrayOrEmpty ar')))"
proof -
  consider (low) "c < 0.4" | (mid) "0.4 \<le> c" "c < 0.7" | (high) "0.7 \<le> c"
    by linarith
  then show ?thesis
  proof cases
    case low
    with e have "oa' = Some (JStr MANUAL_REVIEW)" "ar' = pushReason ar lowConfidenceReason"
      by (simp_all add: enforce_low)
    with low show ?thesis
      by (simp add: enforce_low validateEnum_known pushReason_again pushReason_Some)
  next
    case mid
    with e have "oa' \<noteq> Some (JStr LIKELY_AUTHENTIC)"
      by (auto simp: enforce_mid MANUAL_REVIEW_def LIKELY_AUTHENTIC_def split: if_splits)
    then have "validateEnum oa' \<noteq> JStr LIKELY_AUTHENTIC"
      using validateEnum_eq_iff[of LIKELY_AUTHENTIC oa'] by simp
    with mid show ?thesis
      by (simp add: enforce_mid)
  next
    case high
    have nn: "JNull \<notin> set (arrayOrEmpty df)"
      using m by (rule list_all2_fixFinding_no_null)
    have len: "length (filter isHigh (map json_of_DetailedFinding ds))
                 = length (filter isHigh (arrayOrEmpty df))"
      using m by (rule filter_isHigh_again)
    have first: "(oa', ar') =
          (if oa = Some (JStr LIKELY_TAMPERED) \<and> length (filter isHigh (arrayOrEmpty df)) < 2
           then Some (JStr SUSPICIOUS_ANOMALIES_DETECTED) else oa, ar)"
      using e unfolding enforce_high[OF high nn] by simp
    have keep: "\<not> length (filter isHigh (arrayOrEmpty df)) < 2"
      if "validateEnum oa' = JStr LIKELY_TAMPERED"
    proof -
      from that have "oa' = Some (JStr LIKELY_TAMPERED)"
        using validateEnum_eq_iff[of LIKELY_TAMPERED oa'] by simp
      with first show ?thesis
        by (auto simp: SUSPICIOUS_ANOMALIES_DETECTED_def LIKELY_TAMPERED_def split: if_splits)
    qed
    have nn2: "JNull \<notin> set (arrayOrEmpty (Some (JArr (map json_of_DetailedFinding ds))))"
      using no_null_json_of[of ds] by simp
    have "enforceConsistency c (Some (validateEnum oa')) (Some (JArr (arrayOrEmpty ar')))
            (Some (JArr (map json_of_DetailedFinding ds)))
          = Inr (if Some (validateEnum oa') = Some (JStr LIKELY_TAMPERED)
                   \<and> length (filter isHigh (map json_of_DetailedFinding ds)) < 2
                 then Some (JStr SUSPICIOUS_ANOMALIES_DETECTED) else Some (validateEnum oa'),
                 Some (JArr (arrayOrEmpty ar')))"
      using enforce_high[OF high nn2] by (simp only: arrayOrEmpty.simps)
    also have "\<dots> = Inr (Some (validateEnum oa'), Some (JArr (arrayOrEmpty ar')))"
      unfolding len using keep by (cases "validateEnum oa' = JStr LIKELY_TAMPERED") simp_all
    finally show ?thesis .
  qed
qed

lemma validate_Inr_text:
  assumes "validateAndFixResponse x = Inr r"
  shows "analysisLog r = orElse (jprop x ''analysisLog'')
           (JStr ''Analysis completed with default values due to parsing issues.'')"
    and "summary r = orElse (jprop x ''summary'')
           (JStr ''Analysis completed with limited confidence.'')"
    and "technicalSummary r = orElse (jprop x ''technicalSummary'')
           (JStr ''Technical analysis results inconclusive.'')"
    and "coverageNotes r = orElse (jprop x ''coverageNotes'')
           (JStr ''Coverage analysis completed.'')"
    and "promptVersion r = orElse (jprop x ''promptVersion'') (JStr ''v2.2'')"
  using assms
  by (auto simp: validateAndFixResponse_def Let_def split: if_splits sum.splits prod.splits)

lemma validate_again:
  assumes "validateAndFixResponse x = Inr r"
  shows "validateAndFixResponse (json_of_AnalysisResult r) = Inr r"
proof -
  obtain oa ab where e: "enforceConsistency (clampOr (jprop x ''confidenceScore'') 0.5)
                (jprop x ''overallAssessment'') (jprop x ''abstainedReasons'')
                (jprop x ''detailedFindings'') = Inr (oa, ab)"
     and o: "overallAssessment r = validateEnum oa"
     and a: "abstainedReasons r = arrayOrEmpty ab"
    using validate_Inr(2)[OF assms] by blast
  have c: "confidenceScore r = clampOr (jprop x ''confidenceScore'') 0.5"
    by (rule validate_Inr(4)[OF assms])
  have q: "imageQualityScore r = clampOr (jprop x ''imageQualityScore'') 0.7"
    by (rule validate_Inr(5)[OF assms])
  have m: "list_all2 (\<lambda>f d. fixFinding f = Inr d)
             (arrayOrEmpty (jprop x ''detailedFindings'')) (detailedFindings r)"
    using mapFixFinding_Inr[OF validate_Inr(3)[OF assms]] by simp
  have c1: "clampOr (Some (JNum (confidenceScore r))) 0.5 = confidenceScore r"
    unfolding c using clampOr_range[of "0.5" "jprop x ''confidenceScore''"]
    by (simp add: clampOr_of_range)
  have q1: "clampOr (Some (JNum (imageQualityScore r))) 0.7 = imageQualityScore r"
    unfolding q using clampOr_range[of "0.7" "jprop x ''imageQualityScore''"]
    by (simp add: clampOr_of_range)
  have e1: "enforceConsistency (confidenceScore r) (Some (overallAssessment r))
              (Some (JArr (abstainedReasons r)))
              (Some (JArr (map json_of_DetailedFinding (detailedFindings r))))
            = Inr (Some (overallAssessment r), Some (JArr (abstainedReasons r)))"
    unfolding c o a by (rule enforce_again[OF e m])
  have m1: "mapFixFinding (map json_of_DetailedFinding (detailedFindings r))
              = Inr (detailedFindings r)"
    using m by (rule mapFixFinding_again)
  have o1: "validateEnum (Some (overallAssessment r)) = overallAssessment r"
    unfolding o by (rule validateEnum_again)
  have t: "orElse (Some (analysisLog r))
             (JStr ''Analysis completed with default values due to parsing issues.'')
             = analysisLog r"
          "orElse (Some (summary r)) (JStr ''Analysis completed with limited confidence.'')
             = summary r"
          "orElse (Some (technicalSummary r)) (JStr ''Technical analysis results inconclusive.'')
             = technicalSummary r"
          "orElse (Some (coverageNotes r)) (JStr ''Coverage analysis completed.'')
             = coverageNotes r"
          "orElse (Some (promptVersion r)) (JStr ''v2.2'') = promptVersion r"
    unfolding validate_Inr_text[OF assms] by (rule orElse_again)+
  have "validateAndFixResponse (json_of_AnalysisResult r) =
          Inr \<lparr> analysisLog = analysisLog r, overallAssessment = overallAssessment r,
                confidenceScore = confidenceScore r, summary = summary r,
                technicalSummary = technicalSummary r, detailedFindings = detailedFindings r,
                coverageNotes = coverageNotes r, imageQualityScore = imageQualityScore r,
                abstainedReasons = abstainedReasons r, promptVersion = promptVersion r \<rparr>"
    by (simp only: validateAndFixResponse_def jprop_AnalysisResult
        json_of_AnalysisResult_not_null if_False c1 q1 Let_def e1 sum.case prod.case
        arrayOrEmpty.simps m1 o1 t)
  then show ?thesis
    by simp
qed

subsection \<open>Idempotence\<close>

text \<open>
  C5. Normalizing twice is normalizing once: for every response, the second call, on the
  result of the first, returns that same result (and where the first call throws there
  is nothing to pass on).
\<close>

theorem normalizer_idempotent:
  "normalizeTwice x = validateAndFixResponse x"
proof (cases "validateAndFixResponse x")
  case (Inl e)
  then show ?thesis by (simp add: normalizeTwice_def)
next
  case (Inr r)
  then show ?thesis by (simp add: normalizeTwice_def validate_again)
qed

theorem normalizer_idempotent_witness:
  "normalizeTwice moderateAuthenticResponse
     = Inr (defaultResult\<lparr>abstainedReasons := [JStr moderateConfidenceReason]\<rparr>)"
proof -
  have "validateAndFixResponse moderateAuthenticResponse
     = Inr (defaultResult\<lparr>abstainedReasons := [JStr moderateConfidenceReason]\<rparr>)"
    by (simp add: validateAndFixResponse_def moderateAuthenticResponse_def
        enforceConsistency_def validateEnum_def includesLit_def defaultResult_def orElse_def
        pushReason_def LIKELY_AUTHENTIC_def SUSPICIOUS_ANOMALIES_DETECTED_def
        LIKELY_TAMPERED_def MANUAL_REVIEW_def)
  then show ?thesis
    using normalizer_idempotent[of moderateAuthenticResponse] by simp
qed

subsection \<open>The moderate band\<close>

lemma count_list_pushed:
  "count_list (if v \<in> set xs then xs else xs @ [v]) v = max 1 (count_list xs v)"
proof (cases "v \<in> set xs")
  case True
  then have "count_list xs v \<noteq> 0"
    using count_list_0_iff[of xs v] by simp
  with True show ?thesis by simp
next
  case False
  then show ?thesis by simp
qed

text \<open>
  C3, as stated, fails: a LIKELY_AUTHENTIC response of confidence 0.5 whose
  \<open>abstainedReasons\<close> already list the moderate-confidence reason twice keeps both
  copies, so the result holds the reason twice, not once.
\<close>

theorem moderate_reason_once_counterexample:
  "validateAndFixResponse duplicateReasonResponse
     = Inr (defaultResult\<lparr>abstainedReasons :=
              [JStr moderateConfidenceReason, JStr moderateConfidenceReason]\<rparr>)
   \<and> count_list
        (abstainedReasons (defaultResult\<lparr>abstainedReasons :=
              [JStr moderateConfidenceReason, JStr moderateConfidenceReason]\<rparr>))
        (JStr moderateConfidenceReason) = 2"
  by (simp add: validateAndFixResponse_def duplicateReasonResponse_def
        enforceConsistency_def validateEnum_def includesLit_def defaultResult_def orElse_def
        pushReason_def LIKELY_AUTHENTIC_def SUSPICIOUS_ANOMALIES_DETECTED_def
        LIKELY_TAMPERED_def MANUAL_REVIEW_def moderateConfidenceReason_def)

text \<open>
  C3, amended. Whenever the normalizer returns a result for a response whose clamped
  confidence score is at least 0.4 and below 0.7: if the stated assessment is
  LIKELY_AUTHENTIC, the result's assessment is MANUAL_REVIEW, the moderate-confidence
  reason was appended to the response's reasons only if it was not among them (so the
  result holds it once when the response held it at most once, and as often as the
  response otherwise), and a second call adds no copy, whether it is made on the result
  or on the same response, whose \<open>abstainedReasons\<close> the first call has replaced by
  the result's; if the stated assessment is SUSPICIOUS_ANOMALIES_DETECTED or
  LIKELY_TAMPERED, the result has it unchanged.
\<close>

theorem moderate_confidence_assessment:
  assumes "validateAndFixResponse x = Inr r"
    and "0.4 \<le> clampOr (jprop x ''confidenceScore'') 0.5"
    and "clampOr (jprop x ''confidenceScore'') 0.5 < 0.7"
  shows "(jprop x ''overallAssessment'' = Some (JStr LIKELY_AUTHENTIC) \<longrightarrow>
            overallAssessment r = JStr MANUAL_REVIEW
          \<and> abstainedReasons r =
              (if JStr moderateConfidenceReason \<in> set (arrayOrEmpty (jprop x ''abstainedReasons''))
               then arrayOrEmpty (jprop x ''abstainedReasons'')
               else arrayOrEmpty (jprop x ''abstainedReasons'') @ [JStr moderateConfidenceReason])
          \<and> count_list (abstainedReasons r) (JStr moderateConfidenceReason)
              = max 1 (count_list (arrayOrEmpty (jprop x ''abstainedReasons''))
                         (JStr moderateConfidenceReason))
          \<and> validateAndFixResponse (json_of_AnalysisResult r) = Inr r
          \<and> enforceConsistency (clampOr (jprop x ''confidenceScore'') 0.5)
                (jprop x ''overallAssessment'') (Some (JArr (abstainedReasons r)))
                (jprop x ''detailedFindings'')
              = Inr (Some (JStr MANUAL_REVIEW), Some (JArr (abstainedReasons r))))
       \<and> (jprop x ''overallAssessment'' = Some (JStr SUSPICIOUS_ANOMALIES_DETECTED)
            \<longrightarrow> overallAssessment r = JStr SUSPICIOUS_ANOMALIES_DETECTED)
       \<and> (jprop x ''overallAssessment'' = Some (JStr LIKELY_TAMPERED)
            \<longrightarrow> overallAssessment r = JStr LIKELY_TAMPERED)"
proof -
  obtain oa ab where e: "enforceConsistency (clampOr (jprop x ''confidenceScore'') 0.5)
                (jprop x ''overallAssessment'') (jprop x ''abstainedReasons'')
                (jprop x ''detailedFindings'') = Inr (oa, ab)"
     and o: "overallAssessment r = validateEnum oa"
     and a: "abstainedReasons r = arrayOrEmpty ab"
    using validate_Inr(2)[OF assms(1)] by blast
  have m: "(oa, ab) =
     (if jprop x ''overallAssessment'' = Some (JStr LIKELY_AUTHENTIC)
      then (Some (JStr MANUAL_REVIEW),
            pushReason (jprop x ''abstainedReasons'') moderateConfidenceReason)
      else (jprop x ''overallAssessment'', jprop x ''abstainedReasons''))"
    using e unfolding enforce_mid[OF assms(2,3)] by simp
  have auth: "overallAssessment r = JStr MANUAL_REVIEW
          \<and> abstainedReasons r =
              (if JStr moderateConfidenceReason \<in> set (arrayOrEmpty (jprop x ''abstainedReasons''))
               then arrayOrEmpty (jprop x ''abstainedReasons'')
               else arrayOrEmpty (jprop x ''abstainedReasons'') @ [JStr moderateConfidenceReason])"
    if "jprop x ''overallAssessment'' = Some (JStr LIKELY_AUTHENTIC)"
    using that m o a by (simp add: validateEnum_known pushReason_array)
  have cnt: "count_list (abstainedReasons r) (JStr moderateConfidenceReason)
              = max 1 (count_list (arrayOrEmpty (jprop x ''abstainedReasons''))
                         (JStr moderateConfidenceReason))"
    if "jprop x ''overallAssessment'' = Some (JStr LIKELY_AUTHENTIC)"
    using auth[OF that] count_list_pushed[of "JStr moderateConfidenceReason"
        "arrayOrEmpty (jprop x ''abstainedReasons'')"]
    by simp
  have susp: "overallAssessment r = JStr SUSPICIOUS_ANOMALIES_DETECTED"
    if "jprop x ''overallAssessment'' = Some (JStr SUSPICIOUS_ANOMALIES_DETECTED)"
    using that m o
    by (simp add: validateEnum_known LIKELY_AUTHENTIC_def SUSPICIOUS_ANOMALIES_DETECTED_def)
  have tamp: "overallAssessment r = JStr LIKELY_TAMPERED"
    if "jprop x ''overallAssessment'' = Some (JStr LIKELY_TAMPERED)"
    using that m o
    by (simp add: validateEnum_known LIKELY_AUTHENTIC_def LIKELY_TAMPERED_def)
  have same: "enforceConsistency (clampOr (jprop x ''confidenceScore'') 0.5)
                (jprop x ''overallAssessment'') (Some (JArr (abstainedReasons r)))
                (jprop x ''detailedFindings'')
              = Inr (Some (JStr MANUAL_REVIEW), Some (JArr (abstainedReasons r)))"
    if au: "jprop x ''overallAssessment'' = Some (JStr LIKELY_AUTHENTIC)"
  proof -
    have "ab = pushReason (jprop x ''abstainedReasons'') moderateConfidenceReason"
      using m au by simp
    then have "Some (JArr (abstainedReasons r))
                 = pushReason (jprop x ''abstainedReasons'') moderateConfidenceReason"
      using a by (simp add: pushReason_Some)
    then show ?thesis
      unfolding enforce_mid[OF assms(2,3)] using au
      by (simp add: pushReason_again)
  qed
  show ?thesis
    using auth cnt same susp tamp validate_again[OF assms(1)]
    by blast
qed

theorem moderate_confidence_assessment_witness:
  "validateAndFixResponse moderateAuthenticResponse
     = Inr (defaultResult\<lparr>abstainedReasons := [JStr moderateConfidenceReason]\<rparr>)
   \<and> 0.4 \<le> clampOr (jprop moderateAuthenticResponse ''confidenceScore'') 0.5
   \<and> clampOr (jprop moderateAuthenticResponse ''confidenceScore'') 0.5 < 0.7
   \<and> jprop moderateAuthenticResponse ''overallAssessment'' = Some (JStr LIKELY_AUTHENTIC)
   \<and> overallAssessment (defaultResult\<lparr>abstainedReasons := [JStr moderateConfidenceReason]\<rparr>)
       = JStr MANUAL_REVIEW
   \<and> count_list
        (abstainedReasons (defaultResult\<lparr>abstainedReasons := [JStr moderateConfidenceReason]\<rparr>))
        (JStr moderateConfidenceReason) = 1
   \<and> validateAndFixResponse (json_of_AnalysisResult
          (defaultResult\<lparr>abstainedReasons := [JStr moderateConfidenceReason]\<rparr>))
       = Inr (defaultResult\<lparr>abstainedReasons := [JStr moderateConfidenceReason]\<rparr>)"
proof -
  have h: "validateAndFixResponse moderateAuthenticResponse
     = Inr (defaultResult\<lparr>abstainedReasons := [JStr moderateConfidenceReason]\<rparr>)"
    by (simp add: validateAndFixResponse_def moderateAuthenticResponse_def
        enforceConsistency_def validateEnum_def includesLit_def defaultResult_def orElse_def
        pushReason_def LIKELY_AUTHENTIC_def SUSPICIOUS_ANOMALIES_DETECTED_def
        LIKELY_TAMPERED_def MANUAL_REVIEW_def)
  have lo: "0.4 \<le> clampOr (jprop moderateAuthenticResponse ''confidenceScore'') 0.5"
    by (simp add: moderateAuthenticResponse_def)
  have hi: "clampOr (jprop moderateAuthenticResponse ''confidenceScore'') 0.5 < 0.7"
    by (simp add: moderateAuthenticResponse_def)
  have au: "jprop moderateAuthenticResponse ''overallAssessment'' = Some (JStr LIKELY_AUTHENTIC)"
    by (simp add: moderateAuthenticResponse_def LIKELY_AUTHENTIC_def)
  have ab: "arrayOrEmpty (jprop moderateAuthenticResponse ''abstainedReasons'') = []"
    by (simp add: moderateAuthenticResponse_def)
  show ?thesis
    using h lo hi au moderate_confidence_assessment[OF h lo hi]
    by (simp add: ab)
qed

subsection \<open>Ranges of the numeric fields\<close>

lemma fixFinding_ranges:
  assumes "fixFinding f = Inr d"
  shows "0 \<le> evidenceStrength d \<and> evidenceStrength d \<le> 1
       \<and> 0 \<le> region_x (region d) \<and> region_x (region d) \<le> 1
       \<and> 0 \<le> region_y (region d) \<and> region_y (region d) \<le> 1
       \<and> 0 \<le> region_width (region d) \<and> region_width (region d) \<le> 1
       \<and> 0 \<le> region_height (region d) \<and> region_height (region d) \<le> 1"
proof -
  note n = fixFinding_projr(1)[OF assms]
  have d: "d = projr (fixFinding f)" by (rule fixFinding_projr(2)[OF assms])
  have r: "0 \<le> clampOr v 0 \<and> clampOr v 0 \<le> 1"
          "0 \<le> clampOr v 0.1 \<and> clampOr v 0.1 \<le> 1"
          "0 \<le> clampOr v 0.5 \<and> clampOr v 0.5 \<le> 1" for v
    by (rule clampOr_range; simp)+
  show ?thesis
    unfolding d using n r
    by (simp add: fixFinding_def)
qed

lemma fixFinding_copies:
  assumes "fixFinding f = Inr d"
  shows "lightingVector d = orElse (jprop f ''lightingVector'') JNull
       \<and> cloneMatches d = arrayOrEmpty (jprop f ''cloneMatches'')"
proof -
  note n = fixFinding_projr(1)[OF assms]
  have d: "d = projr (fixFinding f)" by (rule fixFinding_projr(2)[OF assms])
  show ?thesis
    unfolding d using n
    by (simp add: fixFinding_def)
qed

text \<open>
  C6, as stated, fails for the nested fields: the lighting vector and the clone matches
  of a finding are copied to the result as they are. Here the result keeps a softness of
  3 and a clone match with similarity 7 and coordinates 5 and -1.
\<close>

theorem nested_fields_unclamped_counterexample:
  "validateAndFixResponse nestedOutOfRangeResponse
     = Inr (defaultResult\<lparr>detailedFindings :=
              [defaultFinding\<lparr>lightingVector := outOfRangeLighting,
                               cloneMatches := [outOfRangeCloneMatch]\<rparr>]\<rparr>)
   \<and> jprop outOfRangeLighting ''softness'' = Some (JNum 3)
   \<and> jprop outOfRangeCloneMatch ''similarity'' = Some (JNum 7)
   \<and> optProp (jprop outOfRangeCloneMatch ''region1'') ''x'' = Some (JNum 5)
   \<and> optProp (jprop outOfRangeCloneMatch ''region2'') ''x'' = Some (JNum (-1))"
  by (simp add: validateAndFixResponse_def nestedOutOfRangeResponse_def Let_def
      enforceConsistency_def validateEnum_def includesLit_def defaultResult_def
      defaultFinding_def orElse_def fixFinding_def outOfRangeLighting_def
      outOfRangeCloneMatch_def LIKELY_AUTHENTIC_def SUSPICIOUS_ANOMALIES_DETECTED_def
      LIKELY_TAMPERED_def MANUAL_REVIEW_def)

lemma list_all2_right_member:
  "list_all2 P xs ys \<Longrightarrow> y \<in> set ys \<Longrightarrow> \<exists>x. P x y"
  by (induction rule: list_all2_induct) auto

text \<open>
  C6, amended. Whenever the normalizer returns a result, its \<open>confidenceScore\<close> and
  \<open>imageQualityScore\<close> are in [0,1], and so are the \<open>evidenceStrength\<close> and the four
  region coordinates of each of its findings; the lighting vector and the clone matches
  of each finding are those of the response's finding, copied without clamping.
\<close>

theorem numeric_fields_in_range:
  assumes "validateAndFixResponse x = Inr r"
  shows "0 \<le> confidenceScore r \<and> confidenceScore r \<le> 1
       \<and> 0 \<le> imageQualityScore r \<and> imageQualityScore r \<le> 1
       \<and> (\<forall>d \<in> set (detailedFindings r).
             0 \<le> evidenceStrength d \<and> evidenceStrength d \<le> 1
           \<and> 0 \<le> region_x (region d) \<and> region_x (region d) \<le> 1
           \<and> 0 \<le> region_y (region d) \<and> region_y (region d) \<le> 1
           \<and> 0 \<le> region_width (region d) \<and> region_width (region d) \<le> 1
           \<and> 0 \<le> region_height (region d) \<and> region_height (region d) \<le> 1)
       \<and> list_all2 (\<lambda>f d. lightingVector d = orElse (jprop f ''lightingVector'') JNull
                         \<and> cloneMatches d = arrayOrEmpty (jprop f ''cloneMatches''))
            (arrayOrEmpty (jprop x ''detailedFindings'')) (detailedFindings r)"
proof -
  have c: "0 \<le> confidenceScore r \<and> confidenceScore r \<le> 1"
    unfolding validate_Inr(4)[OF assms] by (rule clampOr_range) simp_all
  have q: "0 \<le> imageQualityScore r \<and> imageQualityScore r \<le> 1"
    unfolding validate_Inr(5)[OF assms] by (rule clampOr_range) simp_all
  have m: "list_all2 (\<lambda>f d. fixFinding f = Inr d)
             (arrayOrEmpty (jprop x ''detailedFindings'')) (detailedFindings r)"
    using mapFixFinding_Inr[OF validate_Inr(3)[OF assms]] by simp
  have f: "\<forall>d \<in> set (detailedFindings r).
             0 \<le> evidenceStrength d \<and> evidenceStrength d \<le> 1
           \<and> 0 \<le> region_x (region d) \<and> region_x (region d) \<le> 1
           \<and> 0 \<le> region_y (region d) \<and> region_y (region d) \<le> 1
           \<and> 0 \<le> region_width (region d) \<and> region_width (region d) \<le> 1
           \<and> 0 \<le> region_height (region d) \<and> region_height (region d) \<le> 1"
  proof
    fix d assume "d \<in> set (detailedFindings r)"
    then obtain g where "fixFinding g = Inr d"
      using list_all2_right_member[OF m] by blast
    then show "0 \<le> evidenceStrength d \<and> evidenceStrength d \<le> 1
           \<and> 0 \<le> region_x (region d) \<and> region_x (region d) \<le> 1
           \<and> 0 \<le> region_y (region d) \<and> region_y (region d) \<le> 1
           \<and> 0 \<le> region_width (region d) \<and> region_width (region d) \<le> 1
           \<and> 0 \<le> region_height (region d) \<and> region_height (region d) \<le> 1"
      by (rule fixFinding_ranges)
  qed
  have p: "list_all2 (\<lambda>f d. lightingVector d = orElse (jprop f ''lightingVector'') JNull
                         \<and> cloneMatches d = arrayOrEmpty (jprop f ''cloneMatches''))
            (arrayOrEmpty (jprop x ''detailedFindings'')) (detailedFindings r)"
    using m by (rule list_all2_mono) (rule fixFinding_copies)
  show ?thesis
    by (intro conjI) (use c q f p in \<open>simp_all only:\<close>)
qed

theorem numeric_fields_in_range_witness:
  "validateAndFixResponse outOfRangeResponse = Inr outOfRangeResult
   \<and> confidenceScore outOfRangeResult = 1
   \<and> imageQualityScore outOfRangeResult = 0
   \<and> length (detailedFindings outOfRangeResult) = 1
   \<and> 0 \<le> confidenceScore outOfRangeResult \<and> confidenceScore outOfRangeResult \<le> 1
   \<and> 0 \<le> imageQualityScore outOfRangeResult \<and> imageQualityScore outOfRangeResult \<le> 1"
proof -
  have h: "validateAndFixResponse outOfRangeResponse = Inr outOfRangeResult"
    by (simp add: validateAndFixResponse_def outOfRangeResponse_def outOfRangeResult_def
      Let_def enforceConsistency_def validateEnum_def includesLit_def defaultResult_def
      defaultFinding_def orElse_def fixFinding_def LIKELY_AUTHENTIC_def
      SUSPICIOUS_ANOMALIES_DETECTED_def LIKELY_TAMPERED_def MANUAL_REVIEW_def)
  have v: "confidenceScore outOfRangeResult = 1" "imageQualityScore outOfRangeResult = 0"
    "length (detailedFindings outOfRangeResult) = 1"
    by (simp_all add: outOfRangeResult_def)
  from h v numeric_fields_in_range[OF h] show ?thesis
    by blast
qed

subsection \<open>When the normalizer returns\<close>

lemma enforce_total:
  assumes "JNull \<notin> set (arrayOrEmpty df)"
  shows "\<exists>p. enforceConsistency c oa ar df = Inr p"
proof -
  consider (low) "c < 0.4" | (mid) "0.4 \<le> c" "c < 0.7" | (high) "0.7 \<le> c"
    by linarith
  then show ?thesis
  proof cases
    case low
    then show ?thesis using enforce_low by blast
  next
    case mid
    then show ?thesis using enforce_mid by blast
  next
    case high
    then show ?thesis using enforce_high[OF high assms] by blast
  qed
qed

lemma validate_total:
  assumes "x \<noteq> JNull" and "JNull \<notin> set (arrayOrEmpty (jprop x ''detailedFindings''))"
  shows "\<exists>r. validateAndFixResponse x = Inr r"
proof -
  obtain p where "enforceConsistency (clampOr (jprop x ''confidenceScore'') 0.5)
                (jprop x ''overallAssessment'') (jprop x ''abstainedReasons'')
                (jprop x ''detailedFindings'') = Inr p"
    using enforce_total[OF assms(2)] by blast
  moreover obtain ds where
    "mapFixFinding (arrayOrEmpty (jprop x ''detailedFindings'')) = Inr ds"
    using mapFixFinding_no_null[OF assms(2)] by blast
  ultimately show ?thesis
    using assms(1)
    by (cases p) (simp add: validateAndFixResponse_def Let_def)
qed

text \<open>The two shapes of response on which the normalizer itself throws.\<close>

lemma validate_null_throws:
  "validateAndFixResponse JNull = Inl TypeError"
  "validateAndFixResponse (JObj [(''detailedFindings'', JArr [JNull])]) = Inl TypeError"
  by (simp_all add: validateAndFixResponse_def Let_def enforceConsistency_def includesLit_def
      fixFinding_def)

lemma openaiCatch_Error: "\<exists>m. openaiCatch msg = Error m"
  by (simp add: openaiCatch_def)

text \<open>
  C1, as stated, fails: when \<^verbatim>\<open>JSON.parse\<close> throws, as it does on \<^verbatim>\<open>not json\<close>, the
  \<^verbatim>\<open>catch\<close> block throws an \<^verbatim>\<open>Error\<close>; no defaulted result is returned.
\<close>

theorem not_json_raises_counterexample:
  "parseAndNormalize notJsonMessage None
     = Inl (Error ''The OpenAI model failed to process the document. Please try again.'')"
  by (simp add: parseAndNormalize_def openaiCatch_def notJsonMessage_def)

lemma fixFinding_fields:
  assumes "fixFinding f = Inr d"
  shows "finding d = orElse (jprop f ''finding'') (JStr ''Unspecified finding'')
         \<and> location d = orElse (jprop f ''location'') (JStr ''Unknown location'')
         \<and> severity d =
             (if jprop f ''severity'' \<in> {Some (JStr ''Low''), Some (JStr ''Medium''), Some (JStr ''High'')}
              then the (jprop f ''severity'') else JStr ''Low'')
         \<and> artifactType d =
             (if jprop f ''artifactType''
                   \<in> Some ` JStr ` {''COMPRESSION'', ''CLONING'', ''HALOING'', ''NOISE_MISMATCH'',
                         ''KERNING'', ''RESAMPLING'', ''LIGHTING'', ''PAPER_TEXTURE'',
                         ''STAMP_SEAL'', ''SIGNATURE'', ''ALIGNMENT'', ''OTHER''}
              then the (jprop f ''artifactType'') else JStr ''OTHER'')
         \<and> region_x (region d) = clampOr (optProp (jprop f ''region'') ''x'') 0
         \<and> region_y (region d) = clampOr (optProp (jprop f ''region'') ''y'') 0
         \<and> region_width (region d) = clampOr (optProp (jprop f ''region'') ''width'') 0.1
         \<and> region_height (region d) = clampOr (optProp (jprop f ''region'') ''height'') 0.1
         \<and> evidenceStrength d = clampOr (jprop f ''evidenceStrength'') 0.5
         \<and> benignAlternatives d = arrayOrEmpty (jprop f ''benignAlternatives'')
         \<and> crossChecks d = arrayOrEmpty (jprop f ''crossChecks'')
         \<and> geometricConsistency d = orElse (jprop f ''geometricConsistency'') JNull
         \<and> lightingVector d = orElse (jprop f ''lightingVector'') JNull
         \<and> resamplingIndicators d = arrayOrEmpty (jprop f ''resamplingIndicators'')
         \<and> cloneMatches d = arrayOrEmpty (jprop f ''cloneMatches'')
         \<and> ((\<forall>k. jprop f k = None) \<longrightarrow> d = defaultFinding)"
proof -
  note n = fixFinding_projr(1)[OF assms]
  have d: "d = projr (fixFinding f)" by (rule fixFinding_projr(2)[OF assms])
  have s: "includesLit [''Low'', ''Medium'', ''High''] v
             \<longleftrightarrow> v \<in> {Some (JStr ''Low''), Some (JStr ''Medium''), Some (JStr ''High'')}" for v
    by (auto simp: includesLit_def split: option.splits json.splits)
  have a: "includesLit [''COMPRESSION'', ''CLONING'', ''HALOING'', ''NOISE_MISMATCH'',
                        ''KERNING'', ''RESAMPLING'', ''LIGHTING'', ''PAPER_TEXTURE'',
                        ''STAMP_SEAL'', ''SIGNATURE'', ''ALIGNMENT'', ''OTHER''] v
             \<longleftrightarrow> v \<in> Some ` JStr ` {''COMPRESSION'', ''CLONING'', ''HALOING'', ''NOISE_MISMATCH'',
                ''KERNING'', ''RESAMPLING'', ''LIGHTING'', ''PAPER_TEXTURE'',
                ''STAMP_SEAL'', ''SIGNATURE'', ''ALIGNMENT'', ''OTHER''}" for v
    unfolding includesLit_def by (cases v) (auto split: json.splits)
  have e: "fixFinding f = Inr \<lparr>
        finding = orElse (jprop f ''finding'') (JStr ''Unspecified finding''),
        location = orElse (jprop f ''location'') (JStr ''Unknown location''),
        severity =
          (if includesLit [''Low'', ''Medium'', ''High''] (jprop f ''severity'')
           then the (jprop f ''severity'') else JStr ''Low''),
        artifactType =
          (if includesLit [''COMPRESSION'', ''CLONING'', ''HALOING'', ''NOISE_MISMATCH'',
                        ''KERNING'', ''RESAMPLING'', ''LIGHTING'', ''PAPER_TEXTURE'',
                        ''STAMP_SEAL'', ''SIGNATURE'', ''ALIGNMENT'', ''OTHER'']
                (jprop f ''artifactType'')
           then the (jprop f ''artifactType'') else JStr ''OTHER''),
        region = \<lparr>
          region_x = clampOr (optProp (jprop f ''region'') ''x'') 0,
          region_y = clampOr (optProp (jprop f ''region'') ''y'') 0,
          region_width = clampOr (optProp (jprop f ''region'') ''width'') 0.1,
          region_height = clampOr (optProp (jprop f ''region'') ''height'') 0.1 \<rparr>,
        evidenceStrength = clampOr (jprop f ''evidenceStrength'') 0.5,
        benignAlternatives = arrayOrEmpty (jprop f ''benignAlternatives''),
        crossChecks = arrayOrEmpty (jprop f ''crossChecks''),
        geometricConsistency = orElse (jprop f ''geometricConsistency'') JNull,
        lightingVector = orElse (jprop f ''lightingVector'') JNull,
        resamplingIndicators = arrayOrEmpty (jprop f ''resamplingIndicators''),
        cloneMatches = arrayOrEmpty (jprop f ''cloneMatches'') \<rparr>"
    using n unfolding fixFinding_def by (simp only: if_False)
  have m: "(\<forall>k. jprop f k = None) \<longrightarrow> d = defaultFinding"
    unfolding d e
    by (simp add: defaultFinding_def orElse_def includesLit_def)
  have q: "d = \<lparr>
        finding = orElse (jprop f ''finding'') (JStr ''Unspecified finding''),
        location = orElse (jprop f ''location'') (JStr ''Unknown location''),
        severity =
          (if includesLit [''Low'', ''Medium'', ''High''] (jprop f ''severity'')
           then the (jprop f ''severity'') else JStr ''Low''),
        artifactType =
          (if includesLit [''COMPRESSION'', ''CLONING'', ''HALOING'', ''NOISE_MISMATCH'',
                        ''KERNING'', ''RESAMPLING'', ''LIGHTING'', ''PAPER_TEXTURE'',
                        ''STAMP_SEAL'', ''SIGNATURE'', ''ALIGNMENT'', ''OTHER'']
                (jprop f ''artifactType'')
           then the (jprop f ''artifactType'') else JStr ''OTHER''),
        region = \<lparr>
          region_x = clampOr (optProp (jprop f ''region'') ''x'') 0,
          region_y = clampOr (optProp (jprop f ''region'') ''y'') 0,
          region_width = clampOr (optProp (jprop f ''region'') ''width'') 0.1,
          region_height = clampOr (optProp (jprop f ''region'') ''height'') 0.1 \<rparr>,
        evidenceStrength = clampOr (jprop f ''evidenceStrength'') 0.5,
        benignAlternatives = arrayOrEmpty (jprop f ''benignAlternatives''),
        crossChecks = arrayOrEmpty (jprop f ''crossChecks''),
        geometricConsistency = orElse (jprop f ''geometricConsistency'') JNull,
        lightingVector = orElse (jprop f ''lightingVector'') JNull,
        resamplingIndicators = arrayOrEmpty (jprop f ''resamplingIndicators''),
        cloneMatches = arrayOrEmpty (jprop f ''cloneMatches'') \<rparr>"
    unfolding d e by simp
  show ?thesis
    by (intro conjI) (rule m | (subst q, simp add: s a))+
qed

text \<open>
  C1, amended. For every parsed value that is not \<^verbatim>\<open>null\<close> and whose \<open>detailedFindings\<close>,
  if an array, hold no \<^verbatim>\<open>null\<close>, the normalizer returns a result, which
  \<^verbatim>\<open>analyzeDocument\<close> returns in turn. In that result every text field is the response's
  value when that is truthy and the documented placeholder otherwise, each score is the
  response's number clamped into [0,1] and 0.5 or 0.7 otherwise, the assessment is a
  member of the enumeration, MANUAL_REVIEW when the response states none, the abstain
  reasons are the response's array (empty if it has none) with the reason of the band
  appended, and every finding is repaired field by field with its own defaults; a
  missing field gets its default, and a response or a finding with no field at all
  gives the entirely defaulted result or finding. When \<^verbatim>\<open>JSON.parse\<close> fails,
  \<^verbatim>\<open>analyzeDocument\<close> raises an \<^verbatim>\<open>Error\<close>.
\<close>

theorem normalizer_returns:
  "(x \<noteq> JNull \<and> JNull \<notin> set (arrayOrEmpty (jprop x ''detailedFindings''))
      \<longrightarrow> (\<exists>r. validateAndFixResponse x = Inr r
            \<and> parseAndNormalize msg (Some x) = Inr r
            \<and> analysisLog r = orElse (jprop x ''analysisLog'')
                   (JStr ''Analysis completed with default values due to parsing issues.'')
               \<and> summary r = orElse (jprop x ''summary'')
                   (JStr ''Analysis completed with limited confidence.'')
               \<and> technicalSummary r = orElse (jprop x ''technicalSummary'')
                   (JStr ''Technical analysis results inconclusive.'')
               \<and> coverageNotes r = orElse (jprop x ''coverageNotes'') (JStr ''Coverage analysis completed.'')
               \<and> promptVersion r = orElse (jprop x ''promptVersion'') (JStr ''v2.2'')
               \<and> confidenceScore r = clampOr (jprop x ''confidenceScore'') 0.5
               \<and> imageQualityScore r = clampOr (jprop x ''imageQualityScore'') 0.7
               \<and> overallAssessment r \<in> {JStr LIKELY_AUTHENTIC, JStr SUSPICIOUS_ANOMALIES_DETECTED,
                                           JStr LIKELY_TAMPERED, JStr MANUAL_REVIEW}
               \<and> (jprop x ''overallAssessment'' = None \<longrightarrow> overallAssessment r = JStr MANUAL_REVIEW)
               \<and> abstainedReasons r = arrayOrEmpty
                   (if clampOr (jprop x ''confidenceScore'') 0.5 < 0.4
                    then pushReason (jprop x ''abstainedReasons'') lowConfidenceReason
                    else if clampOr (jprop x ''confidenceScore'') 0.5 < 0.7
                            \<and> jprop x ''overallAssessment'' = Some (JStr LIKELY_AUTHENTIC)
                    then pushReason (jprop x ''abstainedReasons'') moderateConfidenceReason
                    else jprop x ''abstainedReasons'')
               \<and> list_all2 (\<lambda>f d.
                       finding d = orElse (jprop f ''finding'') (JStr ''Unspecified finding'')
                       \<and> location d = orElse (jprop f ''location'') (JStr ''Unknown location'')
                       \<and> severity d =
                           (if jprop f ''severity'' \<in> {Some (JStr ''Low''), Some (JStr ''Medium''), Some (JStr ''High'')}
                            then the (jprop f ''severity'') else JStr ''Low'')
                       \<and> artifactType d =
                           (if jprop f ''artifactType''
                                 \<in> Some ` JStr ` {''COMPRESSION'', ''CLONING'', ''HALOING'', ''NOISE_MISMATCH'',
                                       ''KERNING'', ''RESAMPLING'', ''LIGHTING'', ''PAPER_TEXTURE'',
                                       ''STAMP_SEAL'', ''SIGNATURE'', ''ALIGNMENT'', ''OTHER''}
                            then the (jprop f ''artifactType'') else JStr ''OTHER'')
                       \<and> region_x (region d) = clampOr (optProp (jprop f ''region'') ''x'') 0
                       \<and> region_y (region d) = clampOr (optProp (jprop f ''region'') ''y'') 0
                       \<and> region_width (region d) = clampOr (optProp (jprop f ''region'') ''width'') 0.1
                       \<and> region_height (region d) = clampOr (optProp (jprop f ''region'') ''height'') 0.1
                       \<and> evidenceStrength d = clampOr (jprop f ''evidenceStrength'') 0.5
                       \<and> benignAlternatives d = arrayOrEmpty (jprop f ''benignAlternatives'')
                       \<and> crossChecks d = arrayOrEmpty (jprop f ''crossChecks'')
                       \<and> geometricConsistency d = orElse (jprop f ''geometricConsistency'') JNull
                       \<and> lightingVector d = orElse (jprop f ''lightingVector'') JNull
                       \<and> resamplingIndicators d = arrayOrEmpty (jprop f ''resamplingIndicators'')
                       \<and> cloneMatches d = arrayOrEmpty (jprop f ''cloneMatches'')
                       \<and> ((\<forall>k. jprop f k = None) \<longrightarrow> d = defaultFinding))
                   (arrayOrEmpty (jprop x ''detailedFindings'')) (detailedFindings r)
               \<and> (jprop x ''analysisLog'' = None \<longrightarrow> analysisLog r = analysisLog defaultResult)
               \<and> (jprop x ''summary'' = None \<longrightarrow> summary r = summary defaultResult)
               \<and> (jprop x ''technicalSummary'' = None
                     \<longrightarrow> technicalSummary r = technicalSummary defaultResult)
               \<and> (jprop x ''coverageNotes'' = None \<longrightarrow> coverageNotes r = coverageNotes defaultResult)
               \<and> (jprop x ''promptVersion'' = None \<longrightarrow> promptVersion r = promptVersion defaultResult)
               \<and> (jprop x ''confidenceScore'' = None
                     \<longrightarrow> confidenceScore r = confidenceScore defaultResult)
               \<and> (jprop x ''imageQualityScore'' = None
                     \<longrightarrow> imageQualityScore r = imageQualityScore defaultResult)
               \<and> (jprop x ''detailedFindings'' = None \<longrightarrow> detailedFindings r = [])
               \<and> ((\<forall>k. jprop x k = None) \<longrightarrow> r = defaultResult)))
   \<and> validateAndFixResponse (JObj []) = Inr defaultResult
   \<and> (\<exists>m. parseAndNormalize msg None = Inl (Error m))"
proof -
  have main: "\<exists>r. validateAndFixResponse x = Inr r
            \<and> parseAndNormalize msg (Some x) = Inr r
            \<and> analysisLog r = orElse (jprop x ''analysisLog'')
                   (JStr ''Analysis completed with default values due to parsing issues.'')
               \<and> summary r = orElse (jprop x ''summary'')
                   (JStr ''Analysis completed with limited confidence.'')
               \<and> technicalSummary r = orElse (jprop x ''technicalSummary'')
                   (JStr ''Technical analysis results inconclusive.'')
               \<and> coverageNotes r = orElse (jprop x ''coverageNotes'') (JStr ''Coverage analysis completed.'')
               \<and> promptVersion r = orElse (jprop x ''promptVersion'') (JStr ''v2.2'')
               \<and> confidenceScore r = clampOr (jprop x ''confidenceScore'') 0.5
               \<and> imageQualityScore r = clampOr (jprop x ''imageQualityScore'') 0.7
               \<and> overallAssessment r \<in> {JStr LIKELY_AUTHENTIC, JStr SUSPICIOUS_ANOMALIES_DETECTED,
                                           JStr LIKELY_TAMPERED, JStr MANUAL_REVIEW}
               \<and> (jprop x ''overallAssessment'' = None \<longrightarrow> overallAssessment r = JStr MANUAL_REVIEW)
               \<and> abstainedReasons r = arrayOrEmpty
                   (if clampOr (jprop x ''confidenceScore'') 0.5 < 0.4
                    then pushReason (jprop x ''abstainedReasons'') lowConfidenceReason
                    else if clampOr (jprop x ''confidenceScore'') 0.5 < 0.7
                            \<and> jprop x ''overallAssessment'' = Some (JStr LIKELY_AUTHENTIC)
                    then pushReason (jprop x ''abstainedReasons'') moderateConfidenceReason
                    else jprop x ''abstainedReasons'')
               \<and> list_all2 (\<lambda>f d.
                       finding d = orElse (jprop f ''finding'') (JStr ''Unspecified finding'')
                       \<and> location d = orElse (jprop f ''location'') (JStr ''Unknown location'')
                       \<and> severity d =
                           (if jprop f ''severity'' \<in> {Some (JStr ''Low''), Some (JStr ''Medium''), Some (JStr ''High'')}
                            then the (jprop f ''severity'') else JStr ''Low'')
                       \<and> artifactType d =
                           (if jprop f ''artifactType''
                                 \<in> Some ` JStr ` {''COMPRESSION'', ''CLONING'', ''HALOING'', ''NOISE_MISMATCH'',
                                       ''KERNING'', ''RESAMPLING'', ''LIGHTING'', ''PAPER_TEXTURE'',
                                       ''STAMP_SEAL'', ''SIGNATURE'', ''ALIGNMENT'', ''OTHER''}
                            then the (jprop f ''artifactType'') else JStr ''OTHER'')
                       \<and> region_x (region d) = clampOr (optProp (jprop f ''region'') ''x'') 0
                       \<and> region_y (region d) = clampOr (optProp (jprop f ''region'') ''y'') 0
                       \<and> region_width (region d) = clampOr (optProp (jprop f ''region'') ''width'') 0.1
                       \<and> region_height (region d) = clampOr (optProp (jprop f ''region'') ''height'') 0.1
                       \<and> evidenceStrength d = clampOr (jprop f ''evidenceStrength'') 0.5
                       \<and> benignAlternatives d = arrayOrEmpty (jprop f ''benignAlternatives'')
                       \<and> crossChecks d = arrayOrEmpty (jprop f ''crossChecks'')
                       \<and> geometricConsistency d = orElse (jprop f ''geometricConsistency'') JNull
                       \<and> lightingVector d = orElse (jprop f ''lightingVector'') JNull
                       \<and> resamplingIndicators d = arrayOrEmpty (jprop f ''resamplingIndicators'')
                       \<and> cloneMatches d = arrayOrEmpty (jprop f ''cloneMatches'')
                       \<and> ((\<forall>k. jprop f k = None) \<longrightarrow> d = defaultFinding))
                   (arrayOrEmpty (jprop x ''detailedFindings'')) (detailedFindings r)
               \<and> (jprop x ''analysisLog'' = None \<longrightarrow> analysisLog r = analysisLog defaultResult)
               \<and> (jprop x ''summary'' = None \<longrightarrow> summary r = summary defaultResult)
               \<and> (jprop x ''technicalSummary'' = None
                     \<longrightarrow> technicalSummary r = technicalSummary defaultResult)
               \<and> (jprop x ''coverageNotes'' = None \<longrightarrow> coverageNotes r = coverageNotes defaultResult)
               \<and> (jprop x ''promptVersion'' = None \<longrightarrow> promptVersion r = promptVersion defaultResult)
               \<and> (jprop x ''confidenceScore'' = None
                     \<longrightarrow> confidenceScore r = confidenceScore defaultResult)
               \<and> (jprop x ''imageQualityScore'' = None
                     \<longrightarrow> imageQualityScore r = imageQualityScore defaultResult)
               \<and> (jprop x ''detailedFindings'' = None \<longrightarrow> detailedFindings r = [])
               \<and> ((\<forall>k. jprop x k = None) \<longrightarrow> r = defaultResult)"
    if h: "x \<noteq> JNull \<and> JNull \<notin> set (arrayOrEmpty (jprop x ''detailedFindings''))"
  proof -
    have ok: "x \<noteq> JNull" "JNull \<notin> set (arrayOrEmpty (jprop x ''detailedFindings''))"
      using h by simp_all
    define c where "c = clampOr (jprop x ''confidenceScore'') 0.5"
    obtain r where r: "validateAndFixResponse x = Inr r"
      using validate_total[OF ok] by blast
    have p: "parseAndNormalize msg (Some x) = Inr r"
      using r by (simp add: parseAndNormalize_def)
    obtain oa ab where e: "enforceConsistency c
                (jprop x ''overallAssessment'') (jprop x ''abstainedReasons'')
                (jprop x ''detailedFindings'') = Inr (oa, ab)"
       and o: "overallAssessment r = validateEnum oa"
       and a: "abstainedReasons r = arrayOrEmpty ab"
      using validate_Inr(2)[OF r] unfolding c_def by blast
    note t = validate_Inr_text[OF r]
    have cs: "confidenceScore r = clampOr (jprop x ''confidenceScore'') 0.5"
      by (rule validate_Inr(4)[OF r])
    have qs: "imageQualityScore r = clampOr (jprop x ''imageQualityScore'') 0.7"
      by (rule validate_Inr(5)[OF r])
    have om: "overallAssessment r \<in> {JStr LIKELY_AUTHENTIC, JStr SUSPICIOUS_ANOMALIES_DETECTED,
                            JStr LIKELY_TAMPERED, JStr MANUAL_REVIEW}"
      unfolding o by (rule validateEnum_member)
    consider (low) "c < 0.4" | (mid) "0.4 \<le> c" "c < 0.7" | (high) "0.7 \<le> c"
      by linarith
    then have bands: "(jprop x ''overallAssessment'' = None \<longrightarrow> oa \<in> {None, Some (JStr MANUAL_REVIEW)})
        \<and> ab = (if c < 0.4
             then pushReason (jprop x ''abstainedReasons'') lowConfidenceReason
             else if c < 0.7 \<and> jprop x ''overallAssessment'' = Some (JStr LIKELY_AUTHENTIC)
             then pushReason (jprop x ''abstainedReasons'') moderateConfidenceReason
             else jprop x ''abstainedReasons'')"
    proof cases
      case low
      with e show ?thesis by (simp add: enforce_low)
    next
      case mid
      with e show ?thesis unfolding enforce_mid[OF mid] by (auto split: if_splits)
    next
      case high
      with e show ?thesis unfolding enforce_high[OF high ok(2)] by (auto split: if_splits)
    qed
    have none_enum: "validateEnum None = JStr MANUAL_REVIEW"
      by (simp add: validateEnum_def includesLit_def)
    have manual_enum: "validateEnum (Some (JStr MANUAL_REVIEW)) = JStr MANUAL_REVIEW"
      by (rule validateEnum_known) simp
    have on: "jprop x ''overallAssessment'' = None \<longrightarrow> overallAssessment r = JStr MANUAL_REVIEW"
    proof
      assume "jprop x ''overallAssessment'' = None"
      with bands have "oa = None \<or> oa = Some (JStr MANUAL_REVIEW)"
        by simp
      then show "overallAssessment r = JStr MANUAL_REVIEW"
        unfolding o using none_enum manual_enum by (elim disjE) simp_all
    qed
    have ar: "abstainedReasons r = arrayOrEmpty
        (if clampOr (jprop x ''confidenceScore'') 0.5 < 0.4
         then pushReason (jprop x ''abstainedReasons'') lowConfidenceReason
         else if clampOr (jprop x ''confidenceScore'') 0.5 < 0.7
                 \<and> jprop x ''overallAssessment'' = Some (JStr LIKELY_AUTHENTIC)
         then pushReason (jprop x ''abstainedReasons'') moderateConfidenceReason
         else jprop x ''abstainedReasons'')"
      using bands a unfolding c_def by simp
    have l2: "list_all2 (\<lambda>f d. fixFinding f = Inr d)
               (arrayOrEmpty (jprop x ''detailedFindings'')) (detailedFindings r)"
      using mapFixFinding_Inr[OF validate_Inr(3)[OF r]] by simp
    have fs: "list_all2 (\<lambda>f d.
              finding d = orElse (jprop f ''finding'') (JStr ''Unspecified finding'')
              \<and> location d = orElse (jprop f ''location'') (JStr ''Unknown location'')
              \<and> severity d =
                  (if jprop f ''severity'' \<in> {Some (JStr ''Low''), Some (JStr ''Medium''), Some (JStr ''High'')}
                   then the (jprop f ''severity'') else JStr ''Low'')
              \<and> artifactType d =
                  (if jprop f ''artifactType''
                        \<in> Some ` JStr ` {''COMPRESSION'', ''CLONING'', ''HALOING'', ''NOISE_MISMATCH'',
                              ''KERNING'', ''RESAMPLING'', ''LIGHTING'', ''PAPER_TEXTURE'',
                              ''STAMP_SEAL'', ''SIGNATURE'', ''ALIGNMENT'', ''OTHER''}
                   then the (jprop f ''artifactType'') else JStr ''OTHER'')
              \<and> region_x (region d) = clampOr (optProp (jprop f ''region'') ''x'') 0
              \<and> region_y (region d) = clampOr (optProp (jprop f ''region'') ''y'') 0
              \<and> region_width (region d) = clampOr (optProp (jprop f ''region'') ''width'') 0.1
              \<and> region_height (region d) = clampOr (optProp (jprop f ''region'') ''height'') 0.1
              \<and> evidenceStrength d = clampOr (jprop f ''evidenceStrength'') 0.5
              \<and> benignAlternatives d = arrayOrEmpty (jprop f ''benignAlternatives'')
              \<and> crossChecks d = arrayOrEmpty (jprop f ''crossChecks'')
              \<and> geometricConsistency d = orElse (jprop f ''geometricConsistency'') JNull
              \<and> lightingVector d = orElse (jprop f ''lightingVector'') JNull
              \<and> resamplingIndicators d = arrayOrEmpty (jprop f ''resamplingIndicators'')
              \<and> cloneMatches d = arrayOrEmpty (jprop f ''cloneMatches'')
              \<and> ((\<forall>k. jprop f k = None) \<longrightarrow> d = defaultFinding))
        (arrayOrEmpty (jprop x ''detailedFindings'')) (detailedFindings r)"
      using l2 by (rule list_all2_mono) (rule fixFinding_fields)
    have dn: "jprop x ''detailedFindings'' = None \<longrightarrow> detailedFindings r = []"
      using l2 by auto
    have miss:
      "jprop x ''analysisLog'' = None \<longrightarrow> analysisLog r = analysisLog defaultResult"
      "jprop x ''summary'' = None \<longrightarrow> summary r = summary defaultResult"
      "jprop x ''technicalSummary'' = None
          \<longrightarrow> technicalSummary r = technicalSummary defaultResult"
      "jprop x ''coverageNotes'' = None \<longrightarrow> coverageNotes r = coverageNotes defaultResult"
      "jprop x ''promptVersion'' = None \<longrightarrow> promptVersion r = promptVersion defaultResult"
      "jprop x ''confidenceScore'' = None
          \<longrightarrow> confidenceScore r = confidenceScore defaultResult"
      "jprop x ''imageQualityScore'' = None
          \<longrightarrow> imageQualityScore r = imageQualityScore defaultResult"
      unfolding t cs qs by (simp_all add: orElse_def defaultResult_def)
    have all: "(\<forall>k. jprop x k = None) \<longrightarrow> r = defaultResult"
    proof
      assume none: "\<forall>k. jprop x k = None"
      have "abstainedReasons r = []"
        unfolding ar using none by (simp add: pushReason_def)
      moreover have "overallAssessment r = JStr ''MANUAL_REVIEW''"
        using on none by (simp add: MANUAL_REVIEW_def)
      moreover have "detailedFindings r = []"
        using dn none by simp
      ultimately show "r = defaultResult"
        using miss none
        by (cases r) (simp add: defaultResult_def)
    qed
    show ?thesis
      by (rule exI[of _ r]) (intro conjI; rule r p t cs qs om on ar fs miss dn all)
  qed
  have empty: "validateAndFixResponse (JObj []) = Inr defaultResult"
    by (simp add: validateAndFixResponse_def Let_def enforceConsistency_def validateEnum_def
        includesLit_def defaultResult_def orElse_def LIKELY_AUTHENTIC_def
        SUSPICIOUS_ANOMALIES_DETECTED_def LIKELY_TAMPERED_def MANUAL_REVIEW_def)
  have fail: "\<exists>m. parseAndNormalize msg None = Inl (Error m)"
    using openaiCatch_Error[of msg] by (simp add: parseAndNormalize_def)
  show ?thesis
    by (intro conjI impI) (rule main, assumption, rule empty, rule fail)
qed

theorem normalizer_returns_witness:
  "partialResponse \<noteq> JNull
   \<and> JNull \<notin> set (arrayOrEmpty (jprop partialResponse ''detailedFindings''))
   \<and> validateAndFixResponse partialResponse
       = Inr (defaultResult\<lparr>overallAssessment := JStr ''LIKELY_AUTHENTIC'',
                confidenceScore := 0.8, summary := JStr ''ok'',
                detailedFindings := [defaultFinding]\<rparr>)
   \<and> parseAndNormalize notJsonMessage (Some partialResponse)
       = Inr (defaultResult\<lparr>overallAssessment := JStr ''LIKELY_AUTHENTIC'',
                confidenceScore := 0.8, summary := JStr ''ok'',
                detailedFindings := [defaultFinding]\<rparr>)"
proof -
  have n: "partialResponse \<noteq> JNull"
    by (simp add: partialResponse_def)
  have f: "JNull \<notin> set (arrayOrEmpty (jprop partialResponse ''detailedFindings''))"
    by (simp add: partialResponse_def)
  have h: "validateAndFixResponse partialResponse
       = Inr (defaultResult\<lparr>overallAssessment := JStr ''LIKELY_AUTHENTIC'',
                confidenceScore := 0.8, summary := JStr ''ok'',
                detailedFindings := [defaultFinding]\<rparr>)"
    by (simp add: validateAndFixResponse_def partialResponse_def Let_def
        enforceConsistency_def validateEnum_def includesLit_def defaultResult_def
        defaultFinding_def orElse_def fixFinding_def LIKELY_AUTHENTIC_def
        SUSPICIOUS_ANOMALIES_DETECTED_def LIKELY_TAMPERED_def MANUAL_REVIEW_def)
  have nf: "partialResponse \<noteq> JNull
      \<and> JNull \<notin> set (arrayOrEmpty (jprop partialResponse ''detailedFindings''))"
    using n f by (rule conjI)
  obtain r where "validateAndFixResponse partialResponse = Inr r"
    and "parseAndNormalize notJsonMessage (Some partialResponse) = Inr r"
    using mp[OF conjunct1[OF normalizer_returns[of partialResponse notJsonMessage]] nf]
    by (elim exE conjE)
  with h n f show ?thesis
    by simp
qed

subsection \<open>The low band\<close>

text \<open>
  C2, as stated, fails: a response of confidence 0.1 whose \<open>detailedFindings\<close> hold a
  \<^verbatim>\<open>null\<close> has no result at all, the normalizer throws a TypeError on it.
\<close>

theorem low_confidence_null_finding_counterexample:
  "clampOr (jprop lowConfidenceNullFinding ''confidenceScore'') 0.5 < 0.4
   \<and> validateAndFixResponse lowConfidenceNullFinding = Inl TypeError"
  by (simp add: lowConfidenceNullFinding_def validateAndFixResponse_def Let_def
      enforceConsistency_def fixFinding_def)

text \<open>
  C2, amended. For every response that is not \<^verbatim>\<open>null\<close>, whose \<open>detailedFindings\<close>, if an
  array, hold no \<^verbatim>\<open>null\<close>, and whose confidence score (clamped into [0,1], 0.5 when absent
  or not a number) is below 0.4, the normalizer returns a result; its assessment is
  MANUAL_REVIEW whatever the response's assessment was, the low-confidence reason is
  among its \<open>abstainedReasons\<close>, and it was appended to the response's reasons only if it
  was not there already.
\<close>

theorem low_confidence_forces_manual_review:
  assumes "x \<noteq> JNull"
    and "JNull \<notin> set (arrayOrEmpty (jprop x ''detailedFindings''))"
    and "clampOr (jprop x ''confidenceScore'') 0.5 < 0.4"
  shows "\<exists>r. validateAndFixResponse x = Inr r
       \<and> overallAssessment r = JStr MANUAL_REVIEW
       \<and> JStr lowConfidenceReason \<in> set (abstainedReasons r)
       \<and> abstainedReasons r =
           (if JStr lowConfidenceReason \<in> set (arrayOrEmpty (jprop x ''abstainedReasons''))
            then arrayOrEmpty (jprop x ''abstainedReasons'')
            else arrayOrEmpty (jprop x ''abstainedReasons'') @ [JStr lowConfidenceReason])"
proof -
  obtain r where r: "validateAndFixResponse x = Inr r"
    using validate_total[OF assms(1,2)] by blast
  obtain oa ab where e: "enforceConsistency (clampOr (jprop x ''confidenceScore'') 0.5)
                (jprop x ''overallAssessment'') (jprop x ''abstainedReasons'')
                (jprop x ''detailedFindings'') = Inr (oa, ab)"
     and o: "overallAssessment r = validateEnum oa"
     and a: "abstainedReasons r = arrayOrEmpty ab"
    using validate_Inr(2)[OF r] by blast
  from e assms(3) have oa: "oa = Some (JStr MANUAL_REVIEW)"
    and ab: "ab = pushReason (jprop x ''abstainedReasons'') lowConfidenceReason"
    by (simp_all add: enforce_low)
  have 1: "overallAssessment r = JStr MANUAL_REVIEW"
    using o oa by (simp add: validateEnum_known)
  have 2: "abstainedReasons r =
           (if JStr lowConfidenceReason \<in> set (arrayOrEmpty (jprop x ''abstainedReasons''))
            then arrayOrEmpty (jprop x ''abstainedReasons'')
            else arrayOrEmpty (jprop x ''abstainedReasons'') @ [JStr lowConfidenceReason])"
    using a ab by (simp add: pushReason_array)
  from 2 have 3: "JStr lowConfidenceReason \<in> set (abstainedReasons r)"
    by (simp split: if_splits)
  from r 1 2 3 show ?thesis by blast
qed

theorem low_confidence_forces_manual_review_witness:
  "lowConfidenceResponse \<noteq> JNull
   \<and> JNull \<notin> set (arrayOrEmpty (jprop lowConfidenceResponse ''detailedFindings''))
   \<and> clampOr (jprop lowConfidenceResponse ''confidenceScore'') 0.5 < 0.4
   \<and> jprop lowConfidenceResponse ''overallAssessment'' = Some (JStr LIKELY_TAMPERED)
   \<and> validateAndFixResponse lowConfidenceResponse
     = Inr (defaultResult\<lparr>confidenceScore := 0.2,
              abstainedReasons := [JStr lowConfidenceReason]\<rparr>)
   \<and> overallAssessment (defaultResult\<lparr>confidenceScore := 0.2,
              abstainedReasons := [JStr lowConfidenceReason]\<rparr>) = JStr MANUAL_REVIEW"
proof -
  have n: "lowConfidenceResponse \<noteq> JNull"
    by (simp add: lowConfidenceResponse_def)
  have f: "JNull \<notin> set (arrayOrEmpty (jprop lowConfidenceResponse ''detailedFindings''))"
    by (simp add: lowConfidenceResponse_def)
  have c: "clampOr (jprop lowConfidenceResponse ''confidenceScore'') 0.5 < 0.4"
    by (simp add: lowConfidenceResponse_def)
  have s: "jprop lowConfidenceResponse ''overallAssessment'' = Some (JStr LIKELY_TAMPERED)"
    by (simp add: lowConfidenceResponse_def LIKELY_TAMPERED_def)
  have h: "validateAndFixResponse lowConfidenceResponse
     = Inr (defaultResult\<lparr>confidenceScore := 0.2,
              abstainedReasons := [JStr lowConfidenceReason]\<rparr>)"
    by (simp add: validateAndFixResponse_def lowConfidenceResponse_def enforceConsistency_def
        validateEnum_def includesLit_def defaultResult_def orElse_def pushReason_def
        MANUAL_REVIEW_def Let_def)
  obtain r where "validateAndFixResponse lowConfidenceResponse = Inr r"
    and "overallAssessment r = JStr MANUAL_REVIEW"
    using low_confidence_forces_manual_review[OF n f c] by blast
  with h n f c s show ?thesis
    by simp
qed

subsection \<open>The high band\<close>

text \<open>
  C4, as stated, fails twice: a response of confidence 0.9 whose \<open>detailedFindings\<close>
  hold a \<^verbatim>\<open>null\<close> has no result, and a stated assessment outside the enumeration, here
  \<^verbatim>\<open>foo\<close>, is not accepted as it is but replaced by MANUAL_REVIEW.
\<close>

theorem high_confidence_not_accepted_counterexample:
  "0.7 \<le> clampOr (jprop highConfidenceNullFinding ''confidenceScore'') 0.5
   \<and> validateAndFixResponse highConfidenceNullFinding = Inl TypeError
   \<and> 0.7 \<le> clampOr (jprop unknownAssessmentResponse ''confidenceScore'') 0.5
   \<and> jprop unknownAssessmentResponse ''overallAssessment'' = Some (JStr ''foo'')
   \<and> validateAndFixResponse unknownAssessmentResponse
       = Inr (defaultResult\<lparr>confidenceScore := 0.9\<rparr>)
   \<and> overallAssessment (defaultResult\<lparr>confidenceScore := 0.9\<rparr>) = JStr ''MANUAL_REVIEW''"
  by (simp add: highConfidenceNullFinding_def unknownAssessmentResponse_def
      validateAndFixResponse_def Let_def enforceConsistency_def fixFinding_def getProp_def
      includesLit_def validateEnum_def defaultResult_def orElse_def
      LIKELY_AUTHENTIC_def SUSPICIOUS_ANOMALIES_DETECTED_def LIKELY_TAMPERED_def
      MANUAL_REVIEW_def)

text \<open>
  C4, amended. For every response that is not \<^verbatim>\<open>null\<close>, whose \<open>detailedFindings\<close>, if an
  array, hold no \<^verbatim>\<open>null\<close>, and whose clamped confidence score is at least 0.7, the
  normalizer returns a result. Its assessment is SUSPICIOUS_ANOMALIES_DETECTED when the
  stated one is LIKELY_TAMPERED and fewer than two findings have severity High;
  otherwise it is the stated assessment when that is one of the four members of the
  enumeration, and MANUAL_REVIEW when it is anything else or absent. The witness is the
  response with confidence 0.75, LIKELY_TAMPERED and one High finding.
\<close>

theorem high_confidence_assessment:
  assumes "x \<noteq> JNull"
    and "JNull \<notin> set (arrayOrEmpty (jprop x ''detailedFindings''))"
    and "0.7 \<le> clampOr (jprop x ''confidenceScore'') 0.5"
  shows "\<exists>r. validateAndFixResponse x = Inr r
       \<and> overallAssessment r =
           (if jprop x ''overallAssessment'' = Some (JStr LIKELY_TAMPERED)
               \<and> length (filter isHigh (arrayOrEmpty (jprop x ''detailedFindings''))) < 2
            then JStr SUSPICIOUS_ANOMALIES_DETECTED
            else if jprop x ''overallAssessment''
                      \<in> {Some (JStr LIKELY_AUTHENTIC), Some (JStr SUSPICIOUS_ANOMALIES_DETECTED),
                          Some (JStr LIKELY_TAMPERED), Some (JStr MANUAL_REVIEW)}
            then the (jprop x ''overallAssessment'')
            else JStr MANUAL_REVIEW)"
proof -
  obtain r where r: "validateAndFixResponse x = Inr r"
    using validate_total[OF assms(1,2)] by blast
  obtain oa ab where e: "enforceConsistency (clampOr (jprop x ''confidenceScore'') 0.5)
                (jprop x ''overallAssessment'') (jprop x ''abstainedReasons'')
                (jprop x ''detailedFindings'') = Inr (oa, ab)"
     and o: "overallAssessment r = validateEnum oa"
    using validate_Inr(2)[OF r] by blast
  have oa: "oa = (if jprop x ''overallAssessment'' = Some (JStr LIKELY_TAMPERED)
               \<and> length (filter isHigh (arrayOrEmpty (jprop x ''detailedFindings''))) < 2
            then Some (JStr SUSPICIOUS_ANOMALIES_DETECTED) else jprop x ''overallAssessment'')"
    using e unfolding enforce_high[OF assms(3,2)] by simp
  have v: "validateEnum s =
            (if s \<in> {Some (JStr LIKELY_AUTHENTIC), Some (JStr SUSPICIOUS_ANOMALIES_DETECTED),
                      Some (JStr LIKELY_TAMPERED), Some (JStr MANUAL_REVIEW)}
             then the s else JStr MANUAL_REVIEW)" for s
    by (auto simp: validateEnum_def includesLit_def split: option.splits json.splits)
  have "overallAssessment r =
           (if jprop x ''overallAssessment'' = Some (JStr LIKELY_TAMPERED)
               \<and> length (filter isHigh (arrayOrEmpty (jprop x ''detailedFindings''))) < 2
            then JStr SUSPICIOUS_ANOMALIES_DETECTED
            else if jprop x ''overallAssessment''
                      \<in> {Some (JStr LIKELY_AUTHENTIC), Some (JStr SUSPICIOUS_ANOMALIES_DETECTED),
                          Some (JStr LIKELY_TAMPERED), Some (JStr MANUAL_REVIEW)}
            then the (jprop x ''overallAssessment'')
            else JStr MANUAL_REVIEW)"
  proof (cases "jprop x ''overallAssessment'' = Some (JStr LIKELY_TAMPERED)
               \<and> length (filter isHigh (arrayOrEmpty (jprop x ''detailedFindings''))) < 2")
    case True
    with oa have "oa = Some (JStr SUSPICIOUS_ANOMALIES_DETECTED)" by simp
    with o True show ?thesis by (simp add: validateEnum_known)
  next
    case False
    with oa have "oa = jprop x ''overallAssessment''" by simp
    with o have "overallAssessment r = validateEnum (jprop x ''overallAssessment'')"
      by simp
    also have "\<dots> =
            (if jprop x ''overallAssessment''
                  \<in> {Some (JStr LIKELY_AUTHENTIC), Some (JStr SUSPICIOUS_ANOMALIES_DETECTED),
                      Some (JStr LIKELY_TAMPERED), Some (JStr MANUAL_REVIEW)}
             then the (jprop x ''overallAssessment'') else JStr MANUAL_REVIEW)"
      by (rule v)
    finally show ?thesis
      by (simp only: if_not_P[OF False])
  qed
  with r show ?thesis by blast
qed

theorem high_confidence_assessment_witness:
  "oneHighResponse \<noteq> JNull
   \<and> JNull \<notin> set (arrayOrEmpty (jprop oneHighResponse ''detailedFindings''))
   \<and> 0.7 \<le> clampOr (jprop oneHighResponse ''confidenceScore'') 0.5
   \<and> jprop oneHighResponse ''overallAssessment'' = Some (JStr LIKELY_TAMPERED)
   \<and> length (filter isHigh (arrayOrEmpty (jprop oneHighResponse ''detailedFindings''))) = 1
   \<and> validateAndFixResponse oneHighResponse
     = Inr (defaultResult\<lparr>overallAssessment := JStr SUSPICIOUS_ANOMALIES_DETECTED,
              confidenceScore := 0.75,
              detailedFindings := [defaultFinding\<lparr>severity := JStr ''High''\<rparr>]\<rparr>)
   \<and> overallAssessment (defaultResult\<lparr>overallAssessment := JStr SUSPICIOUS_ANOMALIES_DETECTED,
              confidenceScore := 0.75,
              detailedFindings := [defaultFinding\<lparr>severity := JStr ''High''\<rparr>]\<rparr>)
         = JStr SUSPICIOUS_ANOMALIES_DETECTED"
proof -
  have n: "oneHighResponse \<noteq> JNull"
    by (simp add: oneHighResponse_def)
  have f: "JNull \<notin> set (arrayOrEmpty (jprop oneHighResponse ''detailedFindings''))"
    by (simp add: oneHighResponse_def)
  have c: "0.7 \<le> clampOr (jprop oneHighResponse ''confidenceScore'') 0.5"
    by (simp add: oneHighResponse_def)
  have a: "jprop oneHighResponse ''overallAssessment'' = Some (JStr LIKELY_TAMPERED)"
    by (simp add: oneHighResponse_def LIKELY_TAMPERED_def)
  have m: "length (filter isHigh (arrayOrEmpty (jprop oneHighResponse ''detailedFindings''))) = 1"
    by (simp add: oneHighResponse_def isHigh_def)
  have h: "validateAndFixResponse oneHighResponse
     = Inr (defaultResult\<lparr>overallAssessment := JStr SUSPICIOUS_ANOMALIES_DETECTED,
              confidenceScore := 0.75,
              detailedFindings := [defaultFinding\<lparr>severity := JStr ''High''\<rparr>]\<rparr>)"
    by (simp add: validateAndFixResponse_def oneHighResponse_def enforceConsistency_def
        validateEnum_def includesLit_def defaultResult_def defaultFinding_def orElse_def
        fixFinding_def getProp_def Let_def
        LIKELY_AUTHENTIC_def SUSPICIOUS_ANOMALIES_DETECTED_def LIKELY_TAMPERED_def
        MANUAL_REVIEW_def)
  obtain r where "validateAndFixResponse oneHighResponse = Inr r"
    and "overallAssessment r = JStr SUSPICIOUS_ANOMALIES_DETECTED"
    using high_confidence_assessment[OF n f c] a m by auto
  with h n f c a m show ?thesis
    by simp
qed

section \<open>Properties of the parameter mapper\<close>

text \<open>
  C7. Classification is a lookup in the lists of \<open>MODEL_CATEGORIES\<close>: \<^verbatim>\<open>o3\<close> and
  \<^verbatim>\<open>o4-mini\<close> are reasoning models (\<^verbatim>\<open>o-series\<close>), and a name that is in no list, such as
  \<^verbatim>\<open>unknown-model-xyz\<close>, gets the fallback type \<^verbatim>\<open>legacy\<close>, which has the parameters and
  the wire mapping of the standard type \<^verbatim>\<open>gpt-4o\<close>.
\<close>

theorem getModelType_lookup:
  "getModelType ''o3'' = O_series
   \<and> getModelType ''o4-mini'' = O_series
   \<and> (modelName \<notin> set (concat (map (\<lambda>(key, category). models category) MODEL_CATEGORIES))
        \<longrightarrow> getModelType modelName = Legacy)
   \<and> getModelType ''unknown-model-xyz'' = Legacy
   \<and> getAvailableParameters Legacy = getAvailableParameters GPT_4o
   \<and> createAPIParameterConfig \<lparr>modelType = Legacy, parameters = ps\<rparr>
       = createAPIParameterConfig \<lparr>modelType = GPT_4o, parameters = ps\<rparr>"
  by (simp add: getModelType_def MODEL_CATEGORIES_def createAPIParameterConfig_def)

theorem getModelType_lookup_witness:
  "''unknown-model-xyz''
      \<notin> set (concat (map (\<lambda>(key, category). models category) MODEL_CATEGORIES))
   \<and> getModelType ''unknown-model-xyz'' = Legacy"
proof -
  have h: "''unknown-model-xyz''
      \<notin> set (concat (map (\<lambda>(key, category). models category) MODEL_CATEGORIES))"
    by (simp add: MODEL_CATEGORIES_def)
  show ?thesis
    using h getModelType_lookup[of "''unknown-model-xyz''"] by blast
qed

text \<open>
  C8. For a configuration whose model type is the reasoning one, the wire parameters
  have exactly the keys \<^verbatim>\<open>max_output_tokens\<close> and \<^verbatim>\<open>reasoning\<close> (the effort level): no
  \<^verbatim>\<open>temperature\<close>, \<^verbatim>\<open>top_p\<close>, \<^verbatim>\<open>frequency_penalty\<close> or \<^verbatim>\<open>presence_penalty\<close>, whatever the
  parameters object holds.
\<close>

theorem reasoning_wire_parameters:
  assumes "modelType config = O_series"
  shows "map fst (createAPIParameterConfig config) = [''max_output_tokens'', ''reasoning'']
       \<and> ''temperature'' \<notin> fst ` set (createAPIParameterConfig config)
       \<and> ''top_p'' \<notin> fst ` set (createAPIParameterConfig config)
       \<and> ''frequency_penalty'' \<notin> fst ` set (createAPIParameterConfig config)
       \<and> ''presence_penalty'' \<notin> fst ` set (createAPIParameterConfig config)
       \<and> createAPIParameterConfig config =
           [(''max_output_tokens'', readParam (parameters config) ''maxOutputTokens''),
            (''reasoning'',
               ObjectLit [(''effort'', readParam (parameters config) ''reasoningEffort'')])]"
  using assms by (simp add: createAPIParameterConfig_def)

theorem reasoning_wire_parameters_witness:
  "modelType reasoningConfig = O_series
   \<and> createAPIParameterConfig reasoningConfig =
        [(''max_output_tokens'', Value (JNum 4000)),
         (''reasoning'', ObjectLit [(''effort'', Value (JStr ''medium''))])]"
proof -
  have h: "modelType reasoningConfig = O_series"
    by (simp add: reasoningConfig_def)
  show ?thesis
    using h reasoning_wire_parameters[OF h]
    by (simp add: reasoningConfig_def readParam_def)
qed

section \<open>Properties of the key resolver\<close>

lemma startsWith_append:
  "startsWith s p \<Longrightarrow> \<exists>t. s = p @ t"
  by (metis append_take_drop_id startsWith.simps)

lemma startsWith_sk_proj:
  "startsWith s ''sk-proj-'' \<Longrightarrow> startsWith s ''sk-''"
proof -
  assume "startsWith s ''sk-proj-''"
  then obtain t where "s = ''sk-proj-'' @ t"
    using startsWith_append by blast
  then show ?thesis by simp
qed

text \<open>
  C9. A user-supplied key that is non-empty, non-empty after trimming and passes the
  provider's format check is returned, whatever the deployment default is; a key that
  fails the check gives what no key gives, which is the provider's deployment default,
  absent when that is not set. For OpenAI the check is: the trimmed key starts with
  \<^verbatim>\<open>sk-\<close> and has at least 20 characters.
\<close>

theorem getEffectiveApiKey_resolution:
  "(k \<noteq> [] \<and> trim k \<noteq> [] \<and> validateApiKey isURL provider k
      \<longrightarrow> getEffectiveApiKey isURL env provider (Some k) = Some k)
   \<and> (\<not> validateApiKey isURL provider k
      \<longrightarrow> getEffectiveApiKey isURL env provider (Some k)
            = getEffectiveApiKey isURL env provider None)
   \<and> getEffectiveApiKey isURL env Google None = VITE_GOOGLE_API_KEY env
   \<and> getEffectiveApiKey isURL env OpenAI None = VITE_OPENAI_API_KEY env
   \<and> getEffectiveApiKey isURL env AzureOpenAI None = VITE_AZURE_OPENAI_API_KEY env
   \<and> getEffectiveApiKey isURL env BedrockOpenAI None = VITE_BEDROCK_PROXY_URL env
   \<and> (validateApiKey isURL OpenAI k
        \<longleftrightarrow> startsWith (trim k) ''sk-'' \<and> 20 \<le> length (trim k))"
proof -
  have "validateApiKey isURL OpenAI k
        \<longleftrightarrow> startsWith (trim k) ''sk-'' \<and> 20 \<le> length (trim k)"
  proof
    assume "validateApiKey isURL OpenAI k"
    then show "startsWith (trim k) ''sk-'' \<and> 20 \<le> length (trim k)"
      using startsWith_sk_proj[of "trim k"]
      by (auto simp: validateApiKey_def Let_def split: if_splits)
  next
    assume a: "startsWith (trim k) ''sk-'' \<and> 20 \<le> length (trim k)"
    then have "trim k \<noteq> []" by auto
    then have "k \<noteq> []" by (auto simp: trim_def)
    with a show "validateApiKey isURL OpenAI k"
      by (auto simp: validateApiKey_def Let_def)
  qed
  then show ?thesis
    by (simp add: getEffectiveApiKey_def)
qed

theorem getEffectiveApiKey_resolution_witness:
  "validateApiKey (\<lambda>s. False) OpenAI ''sk-user-supplied-key-1234''
   \<and> getEffectiveApiKey (\<lambda>s. False) sampleEnv OpenAI (Some ''sk-user-supplied-key-1234'')
       = Some ''sk-user-supplied-key-1234''
   \<and> \<not> validateApiKey (\<lambda>s. False) OpenAI ''sk-short''
   \<and> getEffectiveApiKey (\<lambda>s. False) sampleEnv OpenAI (Some ''sk-short'')
       = Some ''sk-deployment-default-key-0000''
   \<and> getEffectiveApiKey (\<lambda>s. False) sampleEnv Google (Some ''sk-short'') = None"
proof -
  have t1: "trim ''sk-user-supplied-key-1234'' = ''sk-user-supplied-key-1234''"
    by (simp add: trim_def isWhiteSpace_def)
  have t2: "trim ''sk-short'' = ''sk-short''"
    by (simp add: trim_def isWhiteSpace_def)
  have v1: "validateApiKey (\<lambda>s. False) OpenAI ''sk-user-supplied-key-1234''"
    by (simp add: validateApiKey_def t1)
  have v2: "\<not> validateApiKey (\<lambda>s. False) OpenAI ''sk-short''"
    by (simp add: validateApiKey_def t2)
  have v3: "\<not> validateApiKey (\<lambda>s. False) Google ''sk-short''"
    by (simp add: validateApiKey_def t2)
  show ?thesis
    using v1 v2 v3 t1
      getEffectiveApiKey_resolution[of "''sk-user-supplied-key-1234''" "\<lambda>s. False" OpenAI sampleEnv]
      getEffectiveApiKey_resolution[of "''sk-short''" "\<lambda>s. False" OpenAI sampleEnv]
      getEffectiveApiKey_resolution[of "''sk-short''" "\<lambda>s. False" Google sampleEnv]
    by (simp add: sampleEnv_def)
qed

end
